theory Spec2Isabelle
  imports Main "HOL-Library.Word" "HOL-Library.Multiset" "HOL-Library.Signed_Division"
begin

section \<open>Constants of the exporter (data.go, kubernetes.go)\<close>

definition DefaultAddress :: string where
  "DefaultAddress = ''api.zenoss.io:443''"

definition DefaultSourceType :: string where
  "DefaultSourceType = ''zenoss/opencensus-go-exporter-zenoss''"

definition APIKeyHeader :: string where
  "APIKeyHeader = ''zenoss-api-key''"

definition SourceTypeField :: string where
  "SourceTypeField = ''source-type''"

definition NameField :: string where
  "NameField = ''name''"

definition DescriptionField :: string where
  "DescriptionField = ''description''"

definition UnitsField :: string where
  "UnitsField = ''units''"

definition K8sClusterField :: string where
  "K8sClusterField = ''k8s.cluster''"

definition K8sNamespaceField :: string where
  "K8sNamespaceField = ''k8s.namespace''"

definition K8sPodField :: string where
  "K8sPodField = ''k8s.pod''"

definition ImpactFromDimensionsField :: string where
  "ImpactFromDimensionsField = ''impactFromDimensions''"

definition ImpactToDimensionsField :: string where
  "ImpactToDimensionsField = ''impactToDimensions''"

text \<open>\<^verbatim>\<open>type LogLevel int8\<close> with its four constants.\<close>

type_synonym LogLevel = int

definition LogLevelDebug :: LogLevel where
  "LogLevelDebug = 1"

definition LogLevelInfo :: LogLevel where
  "LogLevelInfo = 2"


definition LogLevelError :: LogLevel where
  "LogLevelError = 4"

section \<open>Data model\<close>

text \<open>
  Go \<^verbatim>\<open>error\<close> values. \<^verbatim>\<open>bundler.ErrOverflow\<close> is the one error the code compares
  against; every other error (a regular expression that does not compile, a failed
  dial, a failed remote call, another bundler error) carries its message.
  A run-time panic is kept apart from error values.
\<close>

datatype error = ErrOverflow | Err string

datatype panic = NilPointerDereference

text \<open>
  A row tag of OpenCensus (\<^verbatim>\<open>tag.Tag\<close>): \<open>KeyName\<close> is \<^verbatim>\<open>rowTag.Key.Name()\<close>,
  \<open>TagValue\<close> is \<^verbatim>\<open>rowTag.Value\<close>.
\<close>

datatype Tag = Tag (KeyName: string) (TagValue: string)

text \<open>
  The aggregation payload of a row (\<^verbatim>\<open>view.AggregationData\<close>). The type \<open>'f\<close> stands
  for \<^verbatim>\<open>float64\<close>: the exporter never computes with these values, it only passes
  them on. \<open>DistributionData\<close> lists Count, Min, Max, Mean and SumOfSquaredDev.
  \<open>OtherData\<close> is a payload that no case of the type switch matches.
\<close>

datatype 'f AggregationData =
    CountData int
  | SumData 'f
  | LastValueData 'f
  | DistributionData int 'f 'f 'f 'f
  | OtherData

record View =
  Name :: string
  Description :: string
  MeasureUnit :: string

record 'f Row =
  Tags :: "Tag list"
  Data :: "'f AggregationData"

text \<open>\<open>EndUnixNano\<close> is \<^verbatim>\<open>viewData.End.UnixNano()\<close>, an int64.\<close>

record 'f ViewData =
  View :: View
  EndUnixNano :: int
  Rows :: "'f Row list"

text \<open>The protobuf \<^verbatim>\<open>structpb.Value\<close> kinds the exporter builds, and \<^verbatim>\<open>structpb.Struct\<close>.\<close>

datatype pbValue = StringValue string | ListValue "pbValue list"

type_synonym pbStruct = "string \<rightharpoonup> pbValue"

record Model =
  Timestamp :: int
  Dimensions :: "string \<rightharpoonup> string"
  MetadataFields :: pbStruct

record 'f Metric =
  Metric :: string
  Dimensions :: "string \<rightharpoonup> string"
  MetadataFields :: pbStruct
  Timestamp :: int
  Value :: 'f

text \<open>\<^verbatim>\<open>type Data struct\<close> with \<^verbatim>\<open>AddModel\<close> and \<^verbatim>\<open>AddMetric\<close>.\<close>

record 'f Data =
  Models :: "Model list"
  Metrics :: "'f Metric list"

definition AddModel :: "'f Data \<Rightarrow> Model \<Rightarrow> 'f Data" where
  "AddModel d model = d\<lparr>Models := Models d @ [model]\<rparr>"

definition AddMetric :: "'f Data \<Rightarrow> 'f Metric \<Rightarrow> 'f Data" where
  "AddMetric d metric = d\<lparr>Metrics := Metrics d @ [metric]\<rparr>"

text \<open>
  The fields of a log call (\<^verbatim>\<open>logrus.Fields\<close>), in the order the source writes them,
  and what \<^verbatim>\<open>Exporter.log\<close> hands on: a call of the custom \<^verbatim>\<open>OnLog\<close> function, or a
  line printed by the standard logger.
\<close>

datatype LogField =
    FString string
  | FInt int
  | FError "error option"
  | FTags "string \<rightharpoonup> string"

type_synonym Fields = "(string \<times> LogField) list"

datatype LogOutput = OnLogCall LogLevel Fields string | LogPrintf string Fields

text \<open>
  \<^verbatim>\<open>type Options struct\<close>. A hook that is \<^verbatim>\<open>nil\<close> is \<open>None\<close>; a \<^verbatim>\<open>*Data\<close> a hook
  returns may be \<^verbatim>\<open>nil\<close>, so it is a \<open>'f Data option\<close>. \<open>OnLog\<close> has no result:
  only whether it is set matters. The thresholds are \<^verbatim>\<open>time.Duration\<close> (nanoseconds)
  and \<^verbatim>\<open>int\<close>.
\<close>

record 'f Options =
  Address :: string
  APIKey :: string
  GlobalDimensions :: "string \<rightharpoonup> string"
  GlobalMetadataFields :: "string \<rightharpoonup> string"
  ModelDimensionTags :: "string list"
  IgnoredMetricNames :: "string list"
  BundleDelayThreshold :: int
  BundleCountThreshold :: int
  OnViewData :: "('f ViewData \<Rightarrow> 'f Data option \<times> bool) option"
  OnViewRow :: "('f ViewData \<Rightarrow> 'f Row \<Rightarrow> 'f Data option \<times> bool) option"
  OnData :: "('f Data option \<Rightarrow> 'f Data option) option"
  OnLog :: bool

section \<open>utils.go\<close>

text \<open>
  A Go \<^verbatim>\<open>map[string]string\<close> is a partial function. A \<^verbatim>\<open>range\<close> loop whose body only
  stores \<^verbatim>\<open>newMap[k] = ...\<close> for the key it visits gives the same map in every
  iteration order, so it is written as the map it builds.
\<close>

definition copyMap :: "(string \<rightharpoonup> string) \<Rightarrow> (string \<rightharpoonup> string)" where
  "copyMap m = Map.empty ++ m"

definition valueFromString :: "string \<Rightarrow> pbValue" where
  "valueFromString s = StringValue s"

definition valueFromStringSlice :: "string list \<Rightarrow> pbValue" where
  "valueFromStringSlice ss = ListValue (map valueFromString ss)"

definition metadataFieldsFromMap :: "(string \<rightharpoonup> string) \<Rightarrow> pbStruct" where
  "metadataFieldsFromMap m =
     (\<lambda>k. case m k of
            None \<Rightarrow> None
          | Some v \<Rightarrow>
              if k = ImpactFromDimensionsField \<or> k = ImpactToDimensionsField
              then Some (valueFromStringSlice [v])
              else Some (valueFromString v))"

section \<open>kubernetes.go\<close>

definition addKubernetesImpacts :: "(string \<rightharpoonup> string) \<Rightarrow> (string \<rightharpoonup> string)" where
  "addKubernetesImpacts metadataFields =
     (case metadataFields K8sClusterField of
        None \<Rightarrow> metadataFields
      | Some cluster \<Rightarrow>
          if cluster = [] then metadataFields
          else (case metadataFields K8sNamespaceField of
             None \<Rightarrow> metadataFields
           | Some namespace \<Rightarrow>
               if namespace = [] then metadataFields
               else (case metadataFields K8sPodField of
                  None \<Rightarrow> metadataFields
                | Some pod \<Rightarrow>
                    if pod = [] then metadataFields
                    else metadataFields(ImpactFromDimensionsField \<mapsto>
                           K8sClusterField @ ''='' @ cluster @ '','' @
                           K8sNamespaceField @ ''='' @ namespace @ '','' @
                           K8sPodField @ ''='' @ pod))))"

section \<open>Logging (Exporter.log)\<close>

definition log :: "'f Options \<Rightarrow> LogLevel \<Rightarrow> Fields \<Rightarrow> string \<Rightarrow> LogOutput list" where
  "log opts level flds format =
     (if OnLog opts then [OnLogCall level flds format]
      else if level > LogLevelInfo then [LogPrintf format flds]
      else [])"

section \<open>Translating one row (the first part of Exporter.onViewRow)\<close>

text \<open>\<^verbatim>\<open>strings.Join\<close>.\<close>

fun Join :: "string list \<Rightarrow> string \<Rightarrow> string" where
  "Join [] sep = []"
| "Join [x] sep = x"
| "Join (x # y # ys) sep = x @ sep @ Join (y # ys) sep"

text \<open>
  The inner loop over \<^verbatim>\<open>viewRow.Tags\<close>: the value of the first row tag whose key name
  is the dimension tag looked for (the loop breaks there).
\<close>

fun matchTag :: "string \<Rightarrow> Tag list \<Rightarrow> string option" where
  "matchTag modelDimensionTag [] = None"
| "matchTag modelDimensionTag (rowTag # rowTags) =
     (if KeyName rowTag = modelDimensionTag then Some (TagValue rowTag)
      else matchTag modelDimensionTag rowTags)"

text \<open>
  The outer loop over \<^verbatim>\<open>e.options.ModelDimensionTags\<close>, with the two variables it
  updates: \<^verbatim>\<open>dimensions\<close> and \<^verbatim>\<open>nameParts\<close>.
\<close>

fun pullDimensions ::
  "string list \<Rightarrow> Tag list \<Rightarrow> (string \<rightharpoonup> string) \<times> string list \<Rightarrow>
   (string \<rightharpoonup> string) \<times> string list" where
  "pullDimensions [] rowTags (dimensions, nameParts) = (dimensions, nameParts)"
| "pullDimensions (modelDimensionTag # rest) rowTags (dimensions, nameParts) =
     (case matchTag modelDimensionTag rowTags of
        None \<Rightarrow> pullDimensions rest rowTags (dimensions, nameParts)
      | Some v \<Rightarrow>
          pullDimensions rest rowTags
            (dimensions(modelDimensionTag \<mapsto> v), nameParts @ [v]))"

text \<open>The map of all tags that the debug trace of a rejected row carries.\<close>

fun tagsMap :: "Tag list \<Rightarrow> (string \<rightharpoonup> string) \<Rightarrow> (string \<rightharpoonup> string)" where
  "tagsMap [] tags = tags"
| "tagsMap (t # ts) tags = tagsMap ts (tags(KeyName t \<mapsto> TagValue t))"

text \<open>The second loop over the row's tags: a tag that is not a dimension becomes metadata.\<close>

fun tagsToMetadata ::
  "Tag list \<Rightarrow> (string \<rightharpoonup> string) \<Rightarrow> (string \<rightharpoonup> string) \<Rightarrow> (string \<rightharpoonup> string)" where
  "tagsToMetadata [] dimensions metadataFields = metadataFields"
| "tagsToMetadata (rowTag # rowTags) dimensions metadataFields =
     tagsToMetadata rowTags dimensions
       (if dimensions (KeyName rowTag) = None
        then metadataFields(KeyName rowTag \<mapsto> TagValue rowTag)
        else metadataFields)"

text \<open>
  The closure \<^verbatim>\<open>addMetric\<close>, with the variables it captures as arguments.
\<close>

definition addMetric ::
  "'f ViewData \<Rightarrow> (string \<rightharpoonup> string) \<Rightarrow> (string \<rightharpoonup> string) \<Rightarrow> int \<Rightarrow>
   'f Data \<Rightarrow> string \<Rightarrow> 'f \<Rightarrow> 'f Data" where
  "addMetric viewData metadataFields dimensions timestamp d name val =
     (let metricMetadataFields = copyMap metadataFields;
          description = Description (View viewData);
          metricMetadataFields =
            (if description \<noteq> [] then metricMetadataFields(DescriptionField \<mapsto> description)
             else metricMetadataFields);
          units = MeasureUnit (View viewData);
          metricMetadataFields =
            (if units \<noteq> [] then metricMetadataFields(UnitsField \<mapsto> units)
             else metricMetadataFields)
      in AddMetric d
           \<lparr>Metric = name,
            Dimensions = copyMap dimensions,
            MetadataFields = metadataFieldsFromMap metricMetadataFields,
            Timestamp = timestamp,
            Value = val\<rparr>)"

text \<open>
  A \<^verbatim>\<open>range\<close> loop over a map whose body appends to a slice: the order of the visits
  shows in the result, and Go leaves it open. The loop takes the order as a list of
  keys; \<open>rangeOrder\<close> says that the list is an order Go may choose, every key of the
  map once.
\<close>

fun rangeMap :: "'k list \<Rightarrow> ('k \<rightharpoonup> 'v) \<Rightarrow> ('k \<Rightarrow> 'v \<Rightarrow> 's \<Rightarrow> 's) \<Rightarrow> 's \<Rightarrow> 's" where
  "rangeMap [] m body s = s"
| "rangeMap (k # ks) m body s =
     (case m k of
        None \<Rightarrow> rangeMap ks m body s
      | Some v \<Rightarrow> rangeMap ks m body (body k v s))"

definition rangeOrder :: "'k list \<Rightarrow> ('k \<rightharpoonup> 'v) \<Rightarrow> bool" where
  "rangeOrder ks m \<longleftrightarrow> distinct ks \<and> set ks = dom m"

text \<open>The map \<^verbatim>\<open>params\<close> of the distribution case; \<open>toFloat\<close> is \<^verbatim>\<open>float64(...)\<close> of the int64 count.\<close>

definition distributionParams ::
  "(int \<Rightarrow> 'f) \<Rightarrow> int \<Rightarrow> 'f \<Rightarrow> 'f \<Rightarrow> 'f \<Rightarrow> 'f \<Rightarrow> (string \<rightharpoonup> 'f)" where
  "distributionParams toFloat cnt mn mx mean ss =
     [''count'' \<mapsto> toFloat cnt, ''min'' \<mapsto> mn, ''max'' \<mapsto> mx, ''mean'' \<mapsto> mean, ''ss'' \<mapsto> ss]"

text \<open>
  \<^verbatim>\<open>onViewRow\<close> up to its last statement: the log output, and the \<^verbatim>\<open>Data\<close> that the last
  statement hands to \<^verbatim>\<open>bundleData\<close> (\<open>None\<close> where the function returns before).
  \<open>toFloat\<close> is the conversion \<^verbatim>\<open>float64(...)\<close> of an int64 and \<open>order\<close> the order in which
  \<^verbatim>\<open>range params\<close> visits the keys. The timestamp is an int64 division, which
  truncates towards zero.
\<close>

definition onViewRow_translate ::
  "(int \<Rightarrow> 'f) \<Rightarrow> string list \<Rightarrow> 'f Options \<Rightarrow> 'f ViewData \<Rightarrow> 'f Row \<Rightarrow>
   LogOutput list \<times> 'f Data option" where
  "onViewRow_translate toFloat order opts viewData viewRow =
     (case pullDimensions (ModelDimensionTags opts) (Tags viewRow) (Map.empty, []) of
        (dimensions, nameParts) \<Rightarrow>
          if length nameParts = 0 then
            (log opts LogLevelDebug
               [(''viewName'', FString (Name (View viewData))),
                (''tags'', FTags (tagsMap (Tags viewRow) Map.empty))]
               ''ignoring row with no model dimension tags'',
             None)
          else
            let metadataFields =
                  tagsToMetadata (Tags viewRow) dimensions [SourceTypeField \<mapsto> DefaultSourceType];
                metadataFields = addKubernetesImpacts metadataFields;
                dimensions = dimensions ++ GlobalDimensions opts;
                metadataFields = metadataFields ++ GlobalMetadataFields opts
            in if length nameParts = 0 then ([], None)
               else
                 let d = \<lparr>Models = [], Metrics = []\<rparr>;
                     timestamp = EndUnixNano viewData sdiv 1000000;
                     modelMetadataFields =
                       (copyMap metadataFields)(NameField \<mapsto> Join nameParts ''/'');
                     d = AddModel d
                           \<lparr>Model.Timestamp = timestamp,
                            Model.Dimensions = dimensions,
                            Model.MetadataFields = metadataFieldsFromMap modelMetadataFields\<rparr>;
                     add = addMetric viewData metadataFields dimensions timestamp;
                     d = (case Data viewRow of
                            CountData n \<Rightarrow> add d (Name (View viewData)) (toFloat n)
                          | SumData x \<Rightarrow> add d (Name (View viewData)) x
                          | LastValueData x \<Rightarrow> add d (Name (View viewData)) x
                          | DistributionData cnt mn mx mean ss \<Rightarrow>
                              rangeMap order (distributionParams toFloat cnt mn mx mean ss)
                                (\<lambda>suffix val d'. add d' (Name (View viewData) @ ''/'' @ suffix) val)
                                d
                          | OtherData \<Rightarrow> d)
                 in ([], Some d))"

section \<open>The freshness checker\<close>

text \<open>
  \<^verbatim>\<open>expiringUint64\<close> with its fields \<^verbatim>\<open>v\<close> (a uint64) and \<^verbatim>\<open>t\<close> (an int64 of Unix
  seconds), and \<^verbatim>\<open>freshnessChecker\<close> with its map \<^verbatim>\<open>m\<close>. The mutex is left out: every
  function below is one critical section. \<open>ttl_seconds\<close> is the argument \<^verbatim>\<open>seconds\<close>
  that the eviction goroutine started by \<^verbatim>\<open>newFreshnessChecker\<close> keeps.
\<close>

record expiringUint64 =
  v_hash :: "64 word"
  t_unix :: int

record freshnessChecker =
  cache_m :: "64 word \<rightharpoonup> expiringUint64"
  ttl_seconds :: int

definition newFreshnessChecker :: "int \<Rightarrow> freshnessChecker" where
  "newFreshnessChecker seconds = \<lparr>cache_m = Map.empty, ttl_seconds = seconds\<rparr>"

text \<open>
  One round of the eviction goroutine, at the tick whose time is \<open>now\<close> (Unix seconds):
  every entry with \<^verbatim>\<open>now.Unix()-v.t > int64(seconds)\<close> is deleted.
\<close>

definition evictTick :: "int \<Rightarrow> freshnessChecker \<Rightarrow> freshnessChecker" where
  "evictTick now f =
     f\<lparr>cache_m :=
         (\<lambda>k. case cache_m f k of
                None \<Rightarrow> None
              | Some old \<Rightarrow> if now - t_unix old > ttl_seconds f then None else Some old)\<rparr>"

text \<open>
  What \<^verbatim>\<open>hashstructure.Hash\<close> is applied to, and \<^verbatim>\<open>isFresh\<close>. The hash function is a
  parameter (its package is not part of the repository); it returns a uint64 or an
  error. \<open>now\<close> is \<^verbatim>\<open>time.Now().Unix()\<close>.
\<close>

datatype Hashable =
    HashDimensions "string \<rightharpoonup> string"
  | HashMetadataFields pbStruct

definition isFresh ::
  "(Hashable \<Rightarrow> error + 64 word) \<Rightarrow> int \<Rightarrow> freshnessChecker \<Rightarrow> Model \<Rightarrow>
   bool \<times> freshnessChecker" where
  "isFresh hash now f model =
     (case hash (HashDimensions (Model.Dimensions model)) of
        Inl err \<Rightarrow> (False, f)
      | Inr keyHash \<Rightarrow>
          (case hash (HashMetadataFields (Model.MetadataFields model)) of
             Inl err \<Rightarrow> (False, f)
           | Inr valueHash \<Rightarrow>
               if (case cache_m f keyHash of
                     None \<Rightarrow> False
                   | Some old \<Rightarrow> valueHash = v_hash old)
               then (True, f)
               else (False,
                     f\<lparr>cache_m := (cache_m f)(keyHash \<mapsto> \<lparr>v_hash = valueHash, t_unix = now\<rparr>)\<rparr>)))"

section \<open>The exporter and the libraries it calls\<close>

text \<open>
  A \<^verbatim>\<open>bundler.Bundler\<close>: the two thresholds \<^verbatim>\<open>NewExporter\<close> sets, and the bundler's own
  state, of a type \<open>'b\<close> the exporter never looks into.
\<close>

record 'b Bundler =
  DelayThreshold :: int
  BundleCountThreshold :: int
  pending :: 'b

datatype 'f Item = ModelItem Model | MetricItem "'f Metric"

text \<open>
  \<^verbatim>\<open>StatusResult\<close> of the data receiver service; \<^verbatim>\<open>GetFailed\<close> is the generated getter,
  which gives 0 on a \<^verbatim>\<open>nil\<close> receiver.
\<close>

record StatusResult =
  Failed :: int
  Succeeded :: int


text \<open>
  The functions of other packages, as parameters:
  \<^item> \<open>float64\<close>: the conversion of an int64;
  \<^item> \<open>regexp_Compile\<close>, \<open>FindString\<close>: package regexp, with \<open>'re\<close> for \<^verbatim>\<open>*regexp.Regexp\<close>;
  \<^item> \<open>grpc_Dial\<close>, \<open>NewDataReceiverServiceClient\<close>: the connection and the client;
  \<^item> \<open>NewBundler\<close>: a new bundler with the package's defaults; \<open>Add\<close>: \<^verbatim>\<open>Bundler.Add\<close>,
    which returns at once with an error or \<^verbatim>\<open>nil\<close> and the bundler's next state;
  \<^item> \<open>PutModels\<close>, \<open>PutMetrics\<close>: one remote call with the API key of the outgoing
    context, \<^verbatim>\<open>DetailedResponse\<close> and the batch; the result is the pair the Go call
    returns, and the client's next state;
  \<^item> \<open>Hash\<close>: \<^verbatim>\<open>hashstructure.Hash\<close>.
\<close>

record ('f, 're, 'conn, 'c, 'b) Lib =
  float64 :: "int \<Rightarrow> 'f"
  regexp_Compile :: "string \<Rightarrow> error + 're"
  FindString :: "'re \<Rightarrow> string \<Rightarrow> string"
  grpc_Dial :: "string \<Rightarrow> error + 'conn"
  NewDataReceiverServiceClient :: "'conn \<Rightarrow> 'c"
  NewBundler :: "'b Bundler"
  Add :: "'b Bundler \<Rightarrow> 'f Item \<Rightarrow> int \<Rightarrow> error option \<times> 'b Bundler"
  PutModels ::
    "'c \<Rightarrow> string \<Rightarrow> bool \<Rightarrow> Model list \<Rightarrow> (StatusResult option \<times> error option) \<times> 'c"
  PutMetrics ::
    "'c \<Rightarrow> string \<Rightarrow> bool \<Rightarrow> 'f Metric list \<Rightarrow> (StatusResult option \<times> error option) \<times> 'c"
  Hash :: "Hashable \<Rightarrow> error + 64 word"

record ('f, 're, 'c, 'b) Exporter =
  options :: "'f Options"
  ignoredMetrics :: "'re list"
  client :: 'c
  modelsBundler :: "'b Bundler"
  metricsBundler :: "'b Bundler"
  modelFreshnessChecker :: freshnessChecker

section \<open>NewExporter\<close>

text \<open>The loop that compiles the ignore patterns, with the slice \<^verbatim>\<open>ignoredMetrics\<close> it
  appends to as \<open>compiled\<close>: the first error ends it.\<close>

fun compilePatterns ::
  "(string \<Rightarrow> error + 're) \<Rightarrow> string list \<Rightarrow> 're list \<Rightarrow> error + 're list" where
  "compilePatterns compile [] compiled = Inr compiled"
| "compilePatterns compile (s # rest) compiled =
     (case compile s of
        Inr r \<Rightarrow> compilePatterns compile rest (compiled @ [r])
      | Inl err \<Rightarrow> Inl err)"

text \<open>\<^verbatim>\<open>time.Second\<close>, in nanoseconds.\<close>

definition Second :: int where
  "Second = 1000000000"

definition NewExporter ::
  "('f, 're, 'conn, 'c, 'b) Lib \<Rightarrow> 'f Options \<Rightarrow> error + ('f, 're, 'c, 'b) Exporter" where
  "NewExporter lib options0 =
     (let opts = (if Address options0 = [] then options0\<lparr>Address := DefaultAddress\<rparr>
                  else options0)
      in case compilePatterns (regexp_Compile lib) (IgnoredMetricNames opts) [] of
           Inl err \<Rightarrow> Inl err
         | Inr ignored \<Rightarrow>
             (case grpc_Dial lib (Address opts) of
                Inl err \<Rightarrow> Inl err
              | Inr conn \<Rightarrow>
                  let delayThreshold =
                        (if BundleDelayThreshold opts > 0 then BundleDelayThreshold opts
                         else 1 * Second);
                      countThreshold =
                        (if Options.BundleCountThreshold opts > 0
                         then Options.BundleCountThreshold opts
                         else 1000);
                      b = (NewBundler lib)
                            \<lparr>DelayThreshold := delayThreshold,
                             Bundler.BundleCountThreshold := countThreshold\<rparr>
                  in Inr \<lparr>options = opts,
                          ignoredMetrics = ignored,
                          client = NewDataReceiverServiceClient lib conn,
                          modelsBundler = b,
                          metricsBundler = b,
                          modelFreshnessChecker = newFreshnessChecker 3600\<rparr>))"

section \<open>bundleData\<close>

text \<open>
  The two loops of \<^verbatim>\<open>bundleData\<close>, over \<^verbatim>\<open>data.Models\<close> and \<^verbatim>\<open>data.Metrics\<close>, with the log
  output so far and the exporter as the state. Every branch of the \<^verbatim>\<open>switch err\<close> goes
  on with the next record.
\<close>

fun bundleModels ::
  "('f, 're, 'conn, 'c, 'b) Lib \<Rightarrow> int \<Rightarrow> Model list \<Rightarrow>
   LogOutput list \<times> ('f, 're, 'c, 'b) Exporter \<Rightarrow>
   LogOutput list \<times> ('f, 're, 'c, 'b) Exporter" where
  "bundleModels lib now [] (lg, e) = (lg, e)"
| "bundleModels lib now (model # rest) (lg, e) =
     (case isFresh (Hash lib) now (modelFreshnessChecker e) model of
        (fresh, f) \<Rightarrow>
          let e = e\<lparr>modelFreshnessChecker := f\<rparr> in
          if fresh then bundleModels lib now rest (lg, e)
          else
            (case Add lib (modelsBundler e) (ModelItem model) 1 of
               (err, b) \<Rightarrow>
                 let e = e\<lparr>modelsBundler := b\<rparr> in
                 (case err of
                    None \<Rightarrow> bundleModels lib now rest (lg, e)
                  | Some ErrOverflow \<Rightarrow>
                      bundleModels lib now rest
                        (lg @ log (options e) LogLevelError [(''error'', FError err)]
                                ''failed to send models: buffer full'', e)
                  | Some (Err x) \<Rightarrow>
                      bundleModels lib now rest
                        (lg @ log (options e) LogLevelError [(''error'', FError err)]
                                ''failed to send models'', e))))"

fun bundleMetrics ::
  "('f, 're, 'conn, 'c, 'b) Lib \<Rightarrow> 'f Metric list \<Rightarrow>
   LogOutput list \<times> ('f, 're, 'c, 'b) Exporter \<Rightarrow>
   LogOutput list \<times> ('f, 're, 'c, 'b) Exporter" where
  "bundleMetrics lib [] (lg, e) = (lg, e)"
| "bundleMetrics lib (metric # rest) (lg, e) =
     (case Add lib (metricsBundler e) (MetricItem metric) 1 of
        (err, b) \<Rightarrow>
          let e = e\<lparr>metricsBundler := b\<rparr> in
          (case err of
             None \<Rightarrow> bundleMetrics lib rest (lg, e)
           | Some ErrOverflow \<Rightarrow>
               bundleMetrics lib rest
                 (lg @ log (options e) LogLevelError [(''error'', FError err)]
                         ''failed to send metrics: buffer full'', e)
           | Some (Err x) \<Rightarrow>
               bundleMetrics lib rest
                 (lg @ log (options e) LogLevelError [(''error'', FError err)]
                         ''failed to send metrics'', e)))"

text \<open>
  \<^verbatim>\<open>bundleData\<close>: the custom \<^verbatim>\<open>OnData\<close> function first; reading \<^verbatim>\<open>data.Models\<close> of a
  \<^verbatim>\<open>nil\<close> pointer panics. \<open>now\<close> is the clock \<^verbatim>\<open>isFresh\<close> reads during the call.
\<close>

definition bundleData ::
  "('f, 're, 'conn, 'c, 'b) Lib \<Rightarrow> int \<Rightarrow> ('f, 're, 'c, 'b) Exporter \<Rightarrow> 'f Data option \<Rightarrow>
   panic + (LogOutput list \<times> ('f, 're, 'c, 'b) Exporter)" where
  "bundleData lib now e data0 =
     (let data = (case OnData (options e) of None \<Rightarrow> data0 | Some hook \<Rightarrow> hook data0)
      in case data of
           None \<Rightarrow> Inl NilPointerDereference
         | Some d \<Rightarrow>
             Inr (bundleMetrics lib (Metrics d) (bundleModels lib now (Models d) ([], e))))"

section \<open>onViewRow, onViewData, ExportView\<close>

text \<open>Running one step after another: a panic ends the run, the log output adds up.\<close>

definition andThen ::
  "panic + (LogOutput list \<times> 's) \<Rightarrow> ('s \<Rightarrow> panic + (LogOutput list \<times> 's)) \<Rightarrow>
   panic + (LogOutput list \<times> 's)" where
  "andThen r next_step =
     (case r of
        Inl p \<Rightarrow> Inl p
      | Inr (lg, s) \<Rightarrow>
          (case next_step s of
             Inl p \<Rightarrow> Inl p
           | Inr (lg', s') \<Rightarrow> Inr (lg @ lg', s')))"

definition onViewRow ::
  "('f, 're, 'conn, 'c, 'b) Lib \<Rightarrow> string list \<Rightarrow> int \<Rightarrow> ('f, 're, 'c, 'b) Exporter \<Rightarrow>
   'f ViewData \<Rightarrow> 'f Row \<Rightarrow> panic + (LogOutput list \<times> ('f, 're, 'c, 'b) Exporter)" where
  "onViewRow lib order now e viewData viewRow =
     (case onViewRow_translate (float64 lib) order (options e) viewData viewRow of
        (lg, None) \<Rightarrow> Inr (lg, e)
      | (lg, Some d) \<Rightarrow> andThen (Inr (lg, e)) (\<lambda>e'. bundleData lib now e' (Some d)))"

text \<open>
  The loop of \<^verbatim>\<open>onViewData\<close> over \<^verbatim>\<open>viewData.Rows\<close>; \<open>orders i\<close> is the order in which
  the \<^verbatim>\<open>range params\<close> of row number \<open>i\<close> runs.
\<close>

fun onViewData_rows ::
  "('f, 're, 'conn, 'c, 'b) Lib \<Rightarrow> (nat \<Rightarrow> string list) \<Rightarrow> int \<Rightarrow> 'f ViewData \<Rightarrow> nat \<Rightarrow>
   'f Row list \<Rightarrow> ('f, 're, 'c, 'b) Exporter \<Rightarrow>
   panic + (LogOutput list \<times> ('f, 're, 'c, 'b) Exporter)" where
  "onViewData_rows lib orders now viewData i [] e = Inr ([], e)"
| "onViewData_rows lib orders now viewData i (viewRow # rest) e =
     (case OnViewRow (options e) of
        None \<Rightarrow>
          andThen (onViewRow lib (orders i) now e viewData viewRow)
            (\<lambda>e'. onViewData_rows lib orders now viewData (Suc i) rest e')
      | Some hook \<Rightarrow>
          (case hook viewData viewRow of
             (data, preventDefault) \<Rightarrow>
               andThen (bundleData lib now e data)
                 (\<lambda>e'. if preventDefault
                       then onViewData_rows lib orders now viewData (Suc i) rest e'
                       else andThen (onViewRow lib (orders i) now e' viewData viewRow)
                              (\<lambda>e''. onViewData_rows lib orders now viewData (Suc i) rest e''))))"

definition onViewData ::
  "('f, 're, 'conn, 'c, 'b) Lib \<Rightarrow> (nat \<Rightarrow> string list) \<Rightarrow> int \<Rightarrow> ('f, 're, 'c, 'b) Exporter \<Rightarrow>
   'f ViewData \<Rightarrow> panic + (LogOutput list \<times> ('f, 're, 'c, 'b) Exporter)" where
  "onViewData lib orders now e viewData =
     onViewData_rows lib orders now viewData 0 (Rows viewData) e"

text \<open>
  The loop of \<^verbatim>\<open>ExportView\<close> over \<^verbatim>\<open>e.ignoredMetrics\<close>: whether some pattern's
  \<^verbatim>\<open>FindString\<close> on the view's name is not the empty string.
\<close>

fun ignoredBy :: "('re \<Rightarrow> string \<Rightarrow> string) \<Rightarrow> 're list \<Rightarrow> string \<Rightarrow> bool" where
  "ignoredBy findString [] name = False"
| "ignoredBy findString (ignoredMetric # rest) name =
     (if findString ignoredMetric name \<noteq> [] then True
      else ignoredBy findString rest name)"

definition ExportView ::
  "('f, 're, 'conn, 'c, 'b) Lib \<Rightarrow> (nat \<Rightarrow> string list) \<Rightarrow> int \<Rightarrow> ('f, 're, 'c, 'b) Exporter \<Rightarrow>
   'f ViewData \<Rightarrow> panic + (LogOutput list \<times> ('f, 're, 'c, 'b) Exporter)" where
  "ExportView lib orders now e viewData =
     (let lg0 = log (options e) LogLevelDebug
                  [(''viewName'', FString (Name (View viewData)))] ''exporting view''
      in if ignoredBy (FindString lib) (ignoredMetrics e) (Name (View viewData))
         then Inr (lg0 @ log (options e) LogLevelDebug
                           [(''viewName'', FString (Name (View viewData)))] ''ignoring metric'',
                   e)
         else andThen (Inr (lg0, e))
                (\<lambda>e'. case OnViewData (options e') of
                        None \<Rightarrow> onViewData lib orders now e' viewData
                      | Some hook \<Rightarrow>
                          (case hook viewData of
                             (data, preventDefault) \<Rightarrow>
                               if preventDefault then bundleData lib now e' data
                               else onViewData lib orders now e' viewData)))"

section \<open>putModels, putMetrics\<close>



section \<open>What the specification speaks of\<close>

text \<open>
  The name parts as the specification words them: for each configured dimension name,
  in the configured order, the value of the first row tag with that key, if there is
  one.
\<close>

definition spec_nameParts :: "string list \<Rightarrow> Tag list \<Rightarrow> string list" where
  "spec_nameParts cfg tags =
     concat (map (\<lambda>d. case find (\<lambda>t. KeyName t = d) tags of
                         None \<Rightarrow> []
                       | Some t \<Rightarrow> [TagValue t]) cfg)"

text \<open>The records a translated row hands on, and the name of a model record.\<close>

definition emittedModels :: "LogOutput list \<times> 'f Data option \<Rightarrow> Model list" where
  "emittedModels r = (case snd r of None \<Rightarrow> [] | Some d \<Rightarrow> Models d)"

definition emittedMetrics :: "LogOutput list \<times> 'f Data option \<Rightarrow> 'f Metric list" where
  "emittedMetrics r = (case snd r of None \<Rightarrow> [] | Some d \<Rightarrow> Metrics d)"

definition modelName :: "Model \<Rightarrow> pbValue option" where
  "modelName model = Model.MetadataFields model NameField"

text \<open>
  The dimensions taken from the row's tags, before the global dimensions are copied
  over them; the values of a record's dimensions in the configured order; and their
  join for the dimensions of a model record.
\<close>

definition rowDimensions :: "string list \<Rightarrow> Tag list \<Rightarrow> (string \<rightharpoonup> string)" where
  "rowDimensions cfg tags = fst (pullDimensions cfg tags (Map.empty, []))"

definition dimensionValues :: "string list \<Rightarrow> (string \<rightharpoonup> string) \<Rightarrow> string list" where
  "dimensionValues cfg dims =
     concat (map (\<lambda>d. case dims d of None \<Rightarrow> [] | Some v \<Rightarrow> [v]) cfg)"

definition ownDimensionsName :: "string list \<Rightarrow> Model \<Rightarrow> string" where
  "ownDimensionsName cfg model = Join (dimensionValues cfg (Model.Dimensions model)) ''/''"

text \<open>
  The metadata of a row before the name is added (the source type, the tags that are no
  dimensions, the impact field, the global metadata fields over them), and the model
  record of a row in closed form.
\<close>

definition rowMetadata :: "'f Options \<Rightarrow> Tag list \<Rightarrow> (string \<rightharpoonup> string)" where
  "rowMetadata opts tags =
     addKubernetesImpacts
       (tagsToMetadata tags (rowDimensions (ModelDimensionTags opts) tags)
          [SourceTypeField \<mapsto> DefaultSourceType]) ++
     GlobalMetadataFields opts"

definition translatedModel :: "'f Options \<Rightarrow> 'f ViewData \<Rightarrow> 'f Row \<Rightarrow> Model" where
  "translatedModel opts viewData viewRow =
     \<lparr>Model.Timestamp = EndUnixNano viewData sdiv 1000000,
      Model.Dimensions =
        rowDimensions (ModelDimensionTags opts) (Tags viewRow) ++ GlobalDimensions opts,
      Model.MetadataFields =
        metadataFieldsFromMap
          ((copyMap (rowMetadata opts (Tags viewRow)))
             (NameField \<mapsto>
                Join (spec_nameParts (ModelDimensionTags opts) (Tags viewRow)) ''/''))\<rparr>"

text \<open>
  The five metric records of a distribution, with the name of the snapshot, the
  dimensions, metadata and timestamp they share, and the five values.
\<close>

definition distributionMetrics ::
  "string \<Rightarrow> (string \<rightharpoonup> string) \<Rightarrow> pbStruct \<Rightarrow> int \<Rightarrow> 'f \<Rightarrow> 'f \<Rightarrow> 'f \<Rightarrow> 'f \<Rightarrow> 'f \<Rightarrow>
   'f Metric list" where
  "distributionMetrics name dims md ts cnt mn mx mean ss =
     map (\<lambda>(suffix, val).
            \<lparr>Metric = name @ ''/'' @ suffix, Dimensions = dims, MetadataFields = md,
             Timestamp = ts, Value = val\<rparr>)
       [(''count'', cnt), (''min'', mn), (''max'', mx), (''mean'', mean), (''ss'', ss)]"

text \<open>The two hashes \<^verbatim>\<open>isFresh\<close> computes of a model record.\<close>

definition keyHashOf :: "(Hashable \<Rightarrow> error + 64 word) \<Rightarrow> Model \<Rightarrow> error + 64 word" where
  "keyHashOf hash model = hash (HashDimensions (Model.Dimensions model))"

definition valueHashOf :: "(Hashable \<Rightarrow> error + 64 word) \<Rightarrow> Model \<Rightarrow> error + 64 word" where
  "valueHashOf hash model = hash (HashMetadataFields (Model.MetadataFields model))"

text \<open>Several rounds of the eviction goroutine, one per tick.\<close>

fun evictTicks :: "int list \<Rightarrow> freshnessChecker \<Rightarrow> freshnessChecker" where
  "evictTicks [] f = f"
| "evictTicks (tick # ticks) f = evictTicks ticks (evictTick tick f)"




text \<open>The numbers of records an export left in the two bundlers.\<close>

definition bufferedRecords ::
  "panic + (LogOutput list \<times> ('f, 're, 'c, 'i list) Exporter) \<Rightarrow> panic + (nat \<times> nat)" where
  "bufferedRecords r =
     (case r of
        Inl p \<Rightarrow> Inl p
      | Inr (lg, e) \<Rightarrow>
          Inr (length (pending (modelsBundler e)), length (pending (metricsBundler e))))"

section \<open>Concrete inputs\<close>

text \<open>
  A fragment of package regexp, by its documentation, for the examples below.
  A pattern without metacharacters is a literal: \<^verbatim>\<open>FindString\<close> gives the pattern where
  the text holds it, and the empty string otherwise. The pattern \<^verbatim>\<open>c*\<close> of one plain
  character and a star matches at offset 0 of every text, so \<^verbatim>\<open>FindString\<close> gives the
  run of \<^verbatim>\<open>c\<close> the text starts with, which may be empty. The pattern \<^verbatim>\<open>(\<close> does not
  compile. No other pattern is in the fragment.
\<close>

datatype Regexp = Literal string | StarOf char

definition isMeta :: "char \<Rightarrow> bool" where
  "isMeta c \<longleftrightarrow> c \<in> set ''.+*?()|[]{}^$'' \<or> c = CHR 0x5C"

definition demoCompile :: "string \<Rightarrow> error + Regexp" where
  "demoCompile s =
     (if list_all (\<lambda>c. \<not> isMeta c) s then Inr (Literal s)
      else (case s of
              [c, x] \<Rightarrow>
                if x = CHR ''*'' \<and> \<not> isMeta c then Inr (StarOf c)
                else Inl (Err ''error parsing regexp'')
            | _ \<Rightarrow> Inl (Err ''error parsing regexp'')))"

fun hasPrefix :: "string \<Rightarrow> string \<Rightarrow> bool" where
  "hasPrefix [] s = True"
| "hasPrefix (c # p) [] = False"
| "hasPrefix (c # p) (x # s) = (c = x \<and> hasPrefix p s)"

fun holds :: "string \<Rightarrow> string \<Rightarrow> bool" where
  "holds [] p = (p = [])"
| "holds (x # s) p = (hasPrefix p (x # s) \<or> holds s p)"

definition demoFindString :: "Regexp \<Rightarrow> string \<Rightarrow> string" where
  "demoFindString r s =
     (case r of
        Literal p \<Rightarrow> if holds s p then p else []
      | StarOf c \<Rightarrow> takeWhile (\<lambda>x. x = c) s)"

text \<open>
  A bundler that buffers at most two records and answers \<^verbatim>\<open>ErrOverflow\<close> beyond; a
  backend that refuses a call without API key and rejects one record of a batch of
  more than two, its client counting the calls; a hash that reads one field of what it
  hashes; a dial that succeeds, and one that fails.
\<close>

definition demoAdd ::
  "(int Item list) Bundler \<Rightarrow> int Item \<Rightarrow> int \<Rightarrow> error option \<times> (int Item list) Bundler" where
  "demoAdd b item sz =
     (if int (length (pending b)) + sz > 2 then (Some ErrOverflow, b)
      else (None, b\<lparr>pending := pending b @ [item]\<rparr>))"

definition demoPut ::
  "nat \<Rightarrow> string \<Rightarrow> bool \<Rightarrow> 'a list \<Rightarrow> (StatusResult option \<times> error option) \<times> nat" where
  "demoPut c key detailed batch =
     (if key = [] then ((None, Some (Err ''unauthenticated'')), Suc c)
      else if length batch > 2
      then ((Some \<lparr>Failed = 1, Succeeded = int (length batch) - 1\<rparr>, None), Suc c)
      else ((Some \<lparr>Failed = 0, Succeeded = int (length batch)\<rparr>, None), Suc c))"

definition demoHash :: "Hashable \<Rightarrow> error + 64 word" where
  "demoHash h =
     (case h of
        HashDimensions d \<Rightarrow>
          Inr (word_of_nat (length (case d ''service'' of None \<Rightarrow> [] | Some x \<Rightarrow> x)))
      | HashMetadataFields md \<Rightarrow>
          Inr (case md ''host'' of
                 Some (StringValue x) \<Rightarrow> word_of_nat (length x) + 1
               | _ \<Rightarrow> 0))"

definition demoLib :: "(int, Regexp, string, nat, int Item list) Lib" where
  "demoLib =
     \<lparr>float64 = (\<lambda>n. n),
      regexp_Compile = demoCompile,
      FindString = demoFindString,
      grpc_Dial = (\<lambda>address. Inr address),
      NewDataReceiverServiceClient = (\<lambda>conn. 0),
      NewBundler = \<lparr>DelayThreshold = Second, BundleCountThreshold = 10, pending = []\<rparr>,
      Add = demoAdd,
      PutModels = demoPut,
      PutMetrics = demoPut,
      Hash = demoHash\<rparr>"


text \<open>
  Options with no endpoint address and no API key, with two configured dimension tags,
  a global dimension and the ignore pattern \<^verbatim>\<open>a*\<close>; the same with a global dimension
  named like a configured dimension tag, and with a pattern that does not compile.
\<close>

definition demoOptions :: "int Options" where
  "demoOptions =
     \<lparr>Address = [],
      APIKey = [],
      GlobalDimensions = [''source'' \<mapsto> ''app''],
      GlobalMetadataFields = Map.empty,
      ModelDimensionTags = [''service'', ''method''],
      IgnoredMetricNames = [''a*''],
      BundleDelayThreshold = 0,
      BundleCountThreshold = 0,
      OnViewData = None,
      OnViewRow = None,
      OnData = None,
      OnLog = True\<rparr>"

definition demoOptionsOverride :: "int Options" where
  "demoOptionsOverride = demoOptions\<lparr>GlobalDimensions := [''service'' \<mapsto> ''global'']\<rparr>"


text \<open>
  The exporter that \<^verbatim>\<open>NewExporter\<close> makes of these options; the same exporter with an
  API key; and an exporter with no ignore pattern and a custom \<^verbatim>\<open>OnViewData\<close> that drops
  every snapshot: it returns a \<^verbatim>\<open>nil\<close> \<^verbatim>\<open>Data\<close> and prevents the default translation.
\<close>

definition demoExporter :: "(int, Regexp, nat, int Item list) Exporter" where
  "demoExporter =
     \<lparr>options = demoOptions\<lparr>Address := DefaultAddress\<rparr>,
      ignoredMetrics = [StarOf CHR ''a''],
      client = 0,
      modelsBundler = \<lparr>DelayThreshold = Second, BundleCountThreshold = 1000, pending = []\<rparr>,
      metricsBundler = \<lparr>DelayThreshold = Second, BundleCountThreshold = 1000, pending = []\<rparr>,
      modelFreshnessChecker = newFreshnessChecker 3600\<rparr>"



text \<open>
  A snapshot named \<^verbatim>\<open>banana\<close> with one row of a distribution; the row with its tags in
  another order; a row without a configured dimension tag; a row with two tags of one
  key, in both orders; and an order of the loop over the five parameters.
\<close>

definition demoView :: View where
  "demoView = \<lparr>Name = ''banana'', Description = ''example size'', MeasureUnit = ''By''\<rparr>"

definition demoRow :: "int Row" where
  "demoRow =
     \<lparr>Tags = [Tag ''method'' ''GET'', Tag ''service'' ''web'', Tag ''host'' ''h1''],
      Data = DistributionData 10 1 9 5 20\<rparr>"

definition demoRowPermuted :: "int Row" where
  "demoRowPermuted =
     \<lparr>Tags = [Tag ''host'' ''h1'', Tag ''service'' ''web'', Tag ''method'' ''GET''],
      Data = DistributionData 10 1 9 5 20\<rparr>"

definition demoRowNoDimension :: "int Row" where
  "demoRowNoDimension = \<lparr>Tags = [Tag ''host'' ''h1''], Data = CountData 3\<rparr>"

definition demoRowTwice :: "int Row" where
  "demoRowTwice =
     \<lparr>Tags = [Tag ''service'' ''web'', Tag ''service'' ''db''], Data = CountData 3\<rparr>"

definition demoRowTwicePermuted :: "int Row" where
  "demoRowTwicePermuted =
     \<lparr>Tags = [Tag ''service'' ''db'', Tag ''service'' ''web''], Data = CountData 3\<rparr>"

definition demoViewData :: "int ViewData" where
  "demoViewData = \<lparr>View = demoView, EndUnixNano = 1500000000123456789, Rows = [demoRow]\<rparr>"

definition demoOrder :: "string list" where
  "demoOrder = [''mean'', ''count'', ''ss'', ''min'', ''max'']"

text \<open>A metadata map, model records, metric records and a batch.\<close>

definition demoMetadata :: "string \<rightharpoonup> string" where
  "demoMetadata = [''impactFromDimensions'' \<mapsto> ''k8s.pod=p'', ''host'' \<mapsto> ''h1'']"

definition demoModel :: Model where
  "demoModel =
     \<lparr>Model.Timestamp = 1500000000123,
      Model.Dimensions = [''service'' \<mapsto> ''web''],
      Model.MetadataFields = [''host'' \<mapsto> StringValue ''h1'']\<rparr>"

definition demoModelChanged :: Model where
  "demoModelChanged = demoModel\<lparr>Model.MetadataFields := [''host'' \<mapsto> StringValue ''h22'']\<rparr>"



section \<open>Properties\<close>

subsection \<open>The name of the model record\<close>

lemma matchTag_find:
  "matchTag d tags = map_option TagValue (find (\<lambda>t. KeyName t = d) tags)"
  by (induction tags) auto

lemma pullDimensions_nameParts:
  "snd (pullDimensions cfg tags (dims, np)) = np @ spec_nameParts cfg tags"
  by (induction cfg arbitrary: dims np)
     (auto simp: spec_nameParts_def matchTag_find split: option.splits)

lemma pullDimensions_dimensions:
  "fst (pullDimensions cfg tags (dims, np)) d =
     (if d \<in> set cfg then (case matchTag d tags of None \<Rightarrow> dims d | Some v \<Rightarrow> Some v)
      else dims d)"
  by (induction cfg arbitrary: dims np) (auto split: option.splits)

lemma matchTag_None_iff:
  "matchTag d tags = None \<longleftrightarrow> d \<notin> KeyName ` set tags"
  by (induction tags) auto

lemma spec_nameParts_Nil_iff:
  "spec_nameParts cfg tags = [] \<longleftrightarrow> (\<forall>t \<in> set tags. KeyName t \<notin> set cfg)"
  unfolding spec_nameParts_def
  by (induction cfg) (auto simp: find_None_iff find_Some_iff split: option.splits)

lemma translate_rejected:
  assumes "spec_nameParts (ModelDimensionTags opts) (Tags viewRow) = []"
  shows "onViewRow_translate toFloat order opts viewData viewRow =
     (log opts LogLevelDebug
               [(''viewName'', FString (Name (View viewData))),
                (''tags'', FTags (tagsMap (Tags viewRow) Map.empty))]
               ''ignoring row with no model dimension tags'', None)"
proof -
  obtain dims np where p: "pullDimensions (ModelDimensionTags opts) (Tags viewRow) (Map.empty, []) = (dims, np)"
    by (cases "pullDimensions (ModelDimensionTags opts) (Tags viewRow) (Map.empty, [])")
  from pullDimensions_nameParts[of "ModelDimensionTags opts" "Tags viewRow" Map.empty "[]"] p assms
  have "np = []" by simp
  with p show ?thesis by (simp add: onViewRow_translate_def)
qed

lemma translate_built:
  assumes "spec_nameParts (ModelDimensionTags opts) (Tags viewRow) \<noteq> []"
  shows "\<exists>d. onViewRow_translate toFloat order opts viewData viewRow = ([], Some d) \<and>
     Models d = [translatedModel opts viewData viewRow]"
proof -
  obtain dims np where p: "pullDimensions (ModelDimensionTags opts) (Tags viewRow) (Map.empty, []) = (dims, np)"
    by (cases "pullDimensions (ModelDimensionTags opts) (Tags viewRow) (Map.empty, [])")
  from pullDimensions_nameParts[of "ModelDimensionTags opts" "Tags viewRow" Map.empty "[]"] p
  have np: "np = spec_nameParts (ModelDimensionTags opts) (Tags viewRow)" by simp
  have models_add: "Models (addMetric vd md dm ts d0 n x) = Models d0" for vd md dm ts n and x :: 'a and d0
    by (simp add: addMetric_def AddMetric_def Let_def)
  have models_range: "Models (rangeMap ks m (\<lambda>suffix val d'. addMetric vd md dm ts d' (f suffix) val) d0) = Models d0"
    for ks vd md dm ts f d0 and m :: "string \<rightharpoonup> 'a"
    by (induction ks arbitrary: d0) (auto simp: models_add split: option.splits)
  show ?thesis
    using assms p np
    by (simp add: onViewRow_translate_def Let_def AddModel_def models_add models_range
          translatedModel_def rowMetadata_def rowDimensions_def split: AggregationData.splits)
qed


lemma find_unique_key:
  assumes "distinct (map KeyName tags)" "t \<in> set tags"
  shows "find (\<lambda>x. KeyName x = KeyName t) tags = Some t"
  using assms by (induction tags) (auto simp: rev_image_eqI)

lemma find_permuted:
  assumes "distinct (map KeyName tags)" "mset tags' = mset tags"
  shows "find (\<lambda>t. KeyName t = d) tags' = find (\<lambda>t. KeyName t = d) tags"
proof -
  have s: "set tags' = set tags" using assms(2) by (rule mset_eq_setD)
  have "mset (map KeyName tags') = mset (map KeyName tags)" using assms(2) by simp
  then have d': "distinct (map KeyName tags')"
    using assms(1) mset_eq_imp_distinct_iff by blast
  show ?thesis
  proof (cases "find (\<lambda>t. KeyName t = d) tags")
    case None
    then have "find (\<lambda>t. KeyName t = d) tags' = None" using s by (simp add: find_None_iff)
    with None show ?thesis by simp
  next
    case (Some t)
    then have "t \<in> set tags" "KeyName t = d" by (auto simp: find_Some_iff in_set_conv_nth)
    then show ?thesis using find_unique_key[OF d', of t] s Some by simp
  qed
qed

lemma spec_nameParts_permuted:
  assumes "distinct (map KeyName tags)" "mset tags' = mset tags"
  shows "spec_nameParts cfg tags' = spec_nameParts cfg tags"
  by (simp add: spec_nameParts_def find_permuted[OF assms])

lemma name_of_translatedModel:
  "modelName (translatedModel opts viewData viewRow) =
     Some (StringValue (Join (spec_nameParts (ModelDimensionTags opts) (Tags viewRow)) ''/''))"
  by (simp add: modelName_def translatedModel_def metadataFieldsFromMap_def NameField_def
          ImpactFromDimensionsField_def ImpactToDimensionsField_def valueFromString_def)

lemma translate_names:
  "map modelName (emittedModels (onViewRow_translate toFloat order opts viewData viewRow)) =
     (if spec_nameParts (ModelDimensionTags opts) (Tags viewRow) = [] then []
      else [Some (StringValue (Join (spec_nameParts (ModelDimensionTags opts) (Tags viewRow)) ''/''))])"
proof (cases "spec_nameParts (ModelDimensionTags opts) (Tags viewRow) = []")
  case True
  then show ?thesis by (simp add: translate_rejected emittedModels_def)
next
  case False
  from translate_built[OF False, of toFloat order viewData] obtain d where
    d: "onViewRow_translate toFloat order opts viewData viewRow = ([], Some d)"
    and m: "Models d = [translatedModel opts viewData viewRow]"
    by blast
  show ?thesis using False d m by (simp add: emittedModels_def name_of_translatedModel)
qed

text \<open>
  Claim C1, as amended. For every row with at least one tag whose key is a configured
  dimension tag name, the translation hands on exactly one model record, and its name
  field is the values of the matched tags joined by \<^verbatim>\<open>/\<close> in the order of the configured
  list, the first row tag with each configured name giving the value. When the keys of
  the row's tags are pairwise distinct, every permutation of the row's tags gives the
  same name.
\<close>

theorem model_name_joins_matched_tags:
  assumes "\<exists>t \<in> set (Tags viewRow). KeyName t \<in> set (ModelDimensionTags opts)"
  shows "(\<exists>model. emittedModels (onViewRow_translate toFloat order opts viewData viewRow) = [model] \<and>
            modelName model =
              Some (StringValue (Join (spec_nameParts (ModelDimensionTags opts) (Tags viewRow)) ''/''))) \<and>
         (\<forall>viewRow'. distinct (map KeyName (Tags viewRow)) \<and> mset (Tags viewRow') = mset (Tags viewRow) \<longrightarrow>
            map modelName (emittedModels (onViewRow_translate toFloat order opts viewData viewRow')) =
            map modelName (emittedModels (onViewRow_translate toFloat order opts viewData viewRow)))"
proof (intro conjI allI impI)
  from assms have ne: "spec_nameParts (ModelDimensionTags opts) (Tags viewRow) \<noteq> []"
    by (auto simp: spec_nameParts_Nil_iff)
  from translate_built[OF ne, of toFloat order viewData] obtain d model where
    d: "onViewRow_translate toFloat order opts viewData viewRow = ([], Some d)" "Models d = [model]"
    by blast
  have "map modelName (emittedModels (onViewRow_translate toFloat order opts viewData viewRow)) =
     [Some (StringValue (Join (spec_nameParts (ModelDimensionTags opts) (Tags viewRow)) ''/''))]"
    using ne by (simp add: translate_names)
  with d show "\<exists>model. emittedModels (onViewRow_translate toFloat order opts viewData viewRow) = [model] \<and>
            modelName model =
              Some (StringValue (Join (spec_nameParts (ModelDimensionTags opts) (Tags viewRow)) ''/''))"
    by (simp add: emittedModels_def)
next
  fix viewRow' :: "'a Row"
  assume "distinct (map KeyName (Tags viewRow)) \<and> mset (Tags viewRow') = mset (Tags viewRow)"
  then have "spec_nameParts (ModelDimensionTags opts) (Tags viewRow') =
             spec_nameParts (ModelDimensionTags opts) (Tags viewRow)"
    by (simp add: spec_nameParts_permuted)
  then show "map modelName (emittedModels (onViewRow_translate toFloat order opts viewData viewRow')) =
            map modelName (emittedModels (onViewRow_translate toFloat order opts viewData viewRow))"
    by (simp add: translate_names)
qed

lemma demo_nameParts:
  "spec_nameParts (ModelDimensionTags demoOptions) (Tags demoRow) = [''web'', ''GET'']"
  by (simp add: spec_nameParts_def demoOptions_def demoRow_def)

text \<open>
  The theorem at a row with the tags method, service and host, and at the same row with
  its tags in another order: both names are \<^verbatim>\<open>web/GET\<close>.
\<close>

theorem model_name_joins_matched_tags_witness:
  "(\<exists>t \<in> set (Tags demoRow). KeyName t \<in> set (ModelDimensionTags demoOptions)) \<and>
   distinct (map KeyName (Tags demoRow)) \<and>
   mset (Tags demoRowPermuted) = mset (Tags demoRow) \<and>
   map modelName (emittedModels (onViewRow_translate (\<lambda>n. n) demoOrder demoOptions demoViewData demoRow)) =
     [Some (StringValue ''web/GET'')] \<and>
   map modelName (emittedModels (onViewRow_translate (\<lambda>n. n) demoOrder demoOptions demoViewData demoRowPermuted)) =
     [Some (StringValue ''web/GET'')]"
proof -
  have h: "\<exists>t \<in> set (Tags demoRow). KeyName t \<in> set (ModelDimensionTags demoOptions)"
    by (simp add: demoRow_def demoOptions_def)
  have d: "distinct (map KeyName (Tags demoRow))" by (simp add: demoRow_def)
  have p: "mset (Tags demoRowPermuted) = mset (Tags demoRow)"
    by (simp add: demoRow_def demoRowPermuted_def)
  from model_name_joins_matched_tags[OF h, of "\<lambda>n. n" demoOrder demoViewData] d p
  show ?thesis using h by (simp add: demo_nameParts translate_names)
qed

text \<open>
  Claim C1 as it is stated fails where two tags of a row share a key: the row with the
  tags service=web, service=db is named \<^verbatim>\<open>web\<close>, and the same tags in the other order
  are named \<^verbatim>\<open>db\<close>.
\<close>

theorem name_depends_on_tag_order:
  "mset (Tags demoRowTwicePermuted) = mset (Tags demoRowTwice) \<and>
   Tag ''service'' ''web'' \<in> set (Tags demoRowTwice) \<and>
   KeyName (Tag ''service'' ''web'') \<in> set (ModelDimensionTags demoOptions) \<and>
   map modelName (emittedModels (onViewRow_translate (\<lambda>n. n) demoOrder demoOptions demoViewData demoRowTwice)) =
     [Some (StringValue ''web'')] \<and>
   map modelName (emittedModels (onViewRow_translate (\<lambda>n. n) demoOrder demoOptions demoViewData demoRowTwicePermuted)) =
     [Some (StringValue ''db'')]"
  by (simp add: translate_names spec_nameParts_def demoOptions_def demoRowTwice_def demoRowTwicePermuted_def)

subsection \<open>The name and the record's own dimensions\<close>

lemma rowDimensions_apply:
  "rowDimensions cfg tags d = (if d \<in> set cfg then matchTag d tags else None)"
  by (simp add: rowDimensions_def pullDimensions_dimensions split: option.splits)

lemma dimensionValues_cong:
  assumes "\<And>d. d \<in> set cfg \<Longrightarrow> dims d = dims' d"
  shows "dimensionValues cfg dims = dimensionValues cfg dims'"
  using assms by (simp add: dimensionValues_def cong: map_cong)

lemma dimensionValues_rowDimensions:
  "dimensionValues cfg (rowDimensions cfg tags) = spec_nameParts cfg tags"
proof -
  have "dimensionValues cfg (rowDimensions cfg tags) = dimensionValues cfg (\<lambda>d. matchTag d tags)"
    by (rule dimensionValues_cong) (simp add: rowDimensions_apply)
  also have "\<dots> = spec_nameParts cfg tags"
    by (induction cfg)
       (auto simp: dimensionValues_def spec_nameParts_def matchTag_find split: option.splits)
  finally show ?thesis .
qed

lemma translate_model_shape:
  assumes "model \<in> set (emittedModels (onViewRow_translate toFloat order opts viewData viewRow))"
  shows "model = translatedModel opts viewData viewRow"
proof (cases "spec_nameParts (ModelDimensionTags opts) (Tags viewRow) = []")
  case True
  with assms show ?thesis by (simp add: translate_rejected emittedModels_def)
next
  case False
  from translate_built[OF False, of toFloat order viewData] obtain d where
    "onViewRow_translate toFloat order opts viewData viewRow = ([], Some d)"
    "Models d = [translatedModel opts viewData viewRow]"
    by blast
  with assms show ?thesis by (simp add: emittedModels_def)
qed

text \<open>
  Claim C9, as amended. The name of every emitted model record is the values of the
  dimensions taken from the row's tags, joined by \<^verbatim>\<open>/\<close> in the configured order. It is
  the join of the record's own dimension values when no global dimension has the name
  of a configured dimension tag.
\<close>

theorem model_name_joins_row_dimensions:
  "\<forall>model \<in> set (emittedModels (onViewRow_translate toFloat order opts viewData viewRow)).
     modelName model =
       Some (StringValue
         (Join (dimensionValues (ModelDimensionTags opts)
                  (rowDimensions (ModelDimensionTags opts) (Tags viewRow))) ''/'')) \<and>
     ((\<forall>d \<in> set (ModelDimensionTags opts). GlobalDimensions opts d = None) \<longrightarrow>
        modelName model =
          Some (StringValue (ownDimensionsName (ModelDimensionTags opts) model)))"
proof (intro ballI conjI impI)
  fix model
  assume "model \<in> set (emittedModels (onViewRow_translate toFloat order opts viewData viewRow))"
  then have m: "model = translatedModel opts viewData viewRow"
    by (rule translate_model_shape)
  show "modelName model =
       Some (StringValue
         (Join (dimensionValues (ModelDimensionTags opts)
                  (rowDimensions (ModelDimensionTags opts) (Tags viewRow))) ''/''))"
    by (simp add: m name_of_translatedModel dimensionValues_rowDimensions)
  assume g: "\<forall>d \<in> set (ModelDimensionTags opts). GlobalDimensions opts d = None"
  have "dimensionValues (ModelDimensionTags opts) (Model.Dimensions model) =
        dimensionValues (ModelDimensionTags opts) (rowDimensions (ModelDimensionTags opts) (Tags viewRow))"
    by (rule dimensionValues_cong) (use g in \<open>simp add: m translatedModel_def map_add_def\<close>)
  then show "modelName model =
          Some (StringValue (ownDimensionsName (ModelDimensionTags opts) model))"
    by (simp add: ownDimensionsName_def dimensionValues_rowDimensions)
       (simp add: m name_of_translatedModel)
qed

lemma demo_emitted_nonempty:
  "emittedModels (onViewRow_translate (\<lambda>n. n) demoOrder demoOptions demoViewData demoRow) \<noteq> []"
proof -
  have "map modelName (emittedModels (onViewRow_translate (\<lambda>n. n) demoOrder demoOptions demoViewData demoRow)) \<noteq> []"
    unfolding translate_names by (simp add: demo_nameParts)
  then show ?thesis by auto
qed

text \<open>
  The theorem at the row with the tags method, service and host and the global
  dimension source, which is no configured dimension tag: the name and the join of the
  record's own dimension values are both \<^verbatim>\<open>web/GET\<close>.
\<close>

theorem model_name_joins_row_dimensions_witness:
  "emittedModels (onViewRow_translate (\<lambda>n. n) demoOrder demoOptions demoViewData demoRow) \<noteq> [] \<and>
   list_all (\<lambda>d. GlobalDimensions demoOptions d = None) (ModelDimensionTags demoOptions) \<and>
   list_all (\<lambda>model. modelName model = Some (StringValue ''web/GET'') \<and>
                      ownDimensionsName (ModelDimensionTags demoOptions) model = ''web/GET'')
     (emittedModels (onViewRow_translate (\<lambda>n. n) demoOrder demoOptions demoViewData demoRow))"
proof -
  have g: "\<forall>d \<in> set (ModelDimensionTags demoOptions). GlobalDimensions demoOptions d = None"
    by (simp add: demoOptions_def)
  have n: "dimensionValues (ModelDimensionTags demoOptions)
             (rowDimensions (ModelDimensionTags demoOptions) (Tags demoRow)) = [''web'', ''GET'']"
    by (simp add: dimensionValues_rowDimensions demo_nameParts)
  from model_name_joins_row_dimensions[of "\<lambda>n. n" demoOrder demoOptions demoViewData demoRow] g
  have "\<forall>model \<in> set (emittedModels (onViewRow_translate (\<lambda>n. n) demoOrder demoOptions demoViewData demoRow)).
          modelName model = Some (StringValue ''web/GET'') \<and>
          ownDimensionsName (ModelDimensionTags demoOptions) model = ''web/GET''"
    by (simp add: n) (metis option.inject pbValue.inject(1))
  then show ?thesis
    using g by (simp add: demo_emitted_nonempty list_all_iff)
qed

text \<open>
  Claim C9 as it is stated fails where a global dimension has the name of a configured
  dimension tag: with the global dimension service=global, the row with the tag
  service=web is named \<^verbatim>\<open>web/GET\<close>, and its own dimension values join to
  \<^verbatim>\<open>global/GET\<close>.
\<close>

theorem name_differs_from_overridden_dimension:
  "map modelName
     (emittedModels (onViewRow_translate (\<lambda>n. n) demoOrder demoOptionsOverride demoViewData demoRow)) =
     [Some (StringValue ''web/GET'')] \<and>
   map (ownDimensionsName (ModelDimensionTags demoOptionsOverride))
     (emittedModels (onViewRow_translate (\<lambda>n. n) demoOrder demoOptionsOverride demoViewData demoRow)) =
     [''global/GET'']"
proof -
  have ne: "spec_nameParts (ModelDimensionTags demoOptionsOverride) (Tags demoRow) = [''web'', ''GET'']"
    by (simp add: spec_nameParts_def demoOptionsOverride_def demoOptions_def demoRow_def)
  then have ne': "spec_nameParts (ModelDimensionTags demoOptionsOverride) (Tags demoRow) \<noteq> []" by simp
  from translate_built[OF ne', of "\<lambda>n. n" demoOrder demoViewData] obtain d where
    d: "onViewRow_translate (\<lambda>n. n) demoOrder demoOptionsOverride demoViewData demoRow = ([], Some d)"
    and m: "Models d = [translatedModel demoOptionsOverride demoViewData demoRow]"
    by blast
  have own: "ownDimensionsName (ModelDimensionTags demoOptionsOverride)
               (translatedModel demoOptionsOverride demoViewData demoRow) = ''global/GET''"
    by (simp add: ownDimensionsName_def dimensionValues_def translatedModel_def rowDimensions_def
          demoOptionsOverride_def demoOptions_def demoRow_def)
  have names: "map modelName
     (emittedModels (onViewRow_translate (\<lambda>n. n) demoOrder demoOptionsOverride demoViewData demoRow)) =
     [Some (StringValue ''web/GET'')]"
    by (simp add: translate_names ne)
  have "map (ownDimensionsName (ModelDimensionTags demoOptionsOverride))
     (emittedModels (onViewRow_translate (\<lambda>n. n) demoOrder demoOptionsOverride demoViewData demoRow)) =
     [''global/GET'']"
    using own d m by (simp add: emittedModels_def)
  with names show ?thesis by (rule conjI)
qed

subsection \<open>Rows without a dimension tag\<close>

text \<open>
  Claim C2. For every row in which no tag key is a configured dimension tag name,
  \<^verbatim>\<open>onViewRow\<close> hands on no model record and no metric record: it returns with the
  exporter as it was (nothing offered to a bundler), without a panic, and its whole log
  output is one call of \<^verbatim>\<open>e.log\<close> at debug level.
\<close>

theorem row_without_dimension_tag_is_skipped:
  assumes "\<forall>t \<in> set (Tags viewRow). KeyName t \<notin> set (ModelDimensionTags (options e))"
  shows "onViewRow lib order now e viewData viewRow =
           Inr (log (options e) LogLevelDebug
                  [(''viewName'', FString (Name (View viewData))),
                   (''tags'', FTags (tagsMap (Tags viewRow) Map.empty))]
                  ''ignoring row with no model dimension tags'', e) \<and>
         emittedModels (onViewRow_translate (float64 lib) order (options e) viewData viewRow) = [] \<and>
         emittedMetrics (onViewRow_translate (float64 lib) order (options e) viewData viewRow) = []"
proof -
  from assms have "spec_nameParts (ModelDimensionTags (options e)) (Tags viewRow) = []"
    by (simp add: spec_nameParts_Nil_iff)
  then show ?thesis
    by (simp add: onViewRow_def translate_rejected emittedModels_def emittedMetrics_def)
qed

text \<open>
  The theorem at a row whose one tag, host, is no configured dimension tag: the log
  output is the one debug call, and the exporter is as it was.
\<close>

theorem row_without_dimension_tag_is_skipped_witness:
  "list_all (\<lambda>t. KeyName t \<notin> set (ModelDimensionTags (options demoExporter)))
     (Tags demoRowNoDimension) \<and>
   onViewRow demoLib demoOrder 100 demoExporter demoViewData demoRowNoDimension =
     Inr ([OnLogCall LogLevelDebug
             [(''viewName'', FString ''banana''),
              (''tags'', FTags (tagsMap (Tags demoRowNoDimension) Map.empty))]
             ''ignoring row with no model dimension tags''], demoExporter)"
proof -
  have h: "\<forall>t \<in> set (Tags demoRowNoDimension).
             KeyName t \<notin> set (ModelDimensionTags (options demoExporter))"
    by (simp add: demoRowNoDimension_def demoExporter_def demoOptions_def)
  from row_without_dimension_tag_is_skipped[OF h, of demoLib demoOrder 100 demoViewData]
  show ?thesis
    using h
    by (simp add: list_all_iff log_def demoExporter_def demoOptions_def demoViewData_def demoView_def)
qed

subsection \<open>The metric records of a distribution\<close>

lemma copyMap_id: "copyMap m = m"
  by (simp add: copyMap_def)

lemma addMetric_appends:
  "\<exists>mdf. \<forall>d n x. addMetric vd md dm ts d n x =
      d\<lparr>Metrics := Metrics d @
          [\<lparr>Metric = n, Dimensions = dm, MetadataFields = mdf, Timestamp = ts, Value = x\<rparr>]\<rparr>"
proof -
  define mdf where "mdf = metadataFieldsFromMap
     (let m = md;
          m = (if Description (View vd) \<noteq> [] then m(DescriptionField \<mapsto> Description (View vd)) else m);
          m = (if MeasureUnit (View vd) \<noteq> [] then m(UnitsField \<mapsto> MeasureUnit (View vd)) else m)
      in m)"
  have h: "\<forall>d n x. addMetric vd md dm ts d n x =
      d\<lparr>Metrics := Metrics d @
          [\<lparr>Metric = n, Dimensions = dm, MetadataFields = mdf, Timestamp = ts, Value = x\<rparr>]\<rparr>"
    by (simp add: addMetric_def AddMetric_def Let_def copyMap_id mdf_def)
  show ?thesis by (rule exI[of _ mdf]) (rule h)
qed

lemma rangeMap_appends:
  assumes "\<And>d n x. add d n x = d\<lparr>Metrics := Metrics d @ [mk n x]\<rparr>"
  shows "rangeMap ks m (\<lambda>suffix val d'. add d' (f suffix) val) d0 =
     d0\<lparr>Metrics := Metrics d0 @
          concat (map (\<lambda>k. case m k of None \<Rightarrow> [] | Some x \<Rightarrow> [mk (f k) x]) ks)\<rparr>"
  by (induction ks arbitrary: d0) (auto simp: assms split: option.splits)

lemma concat_map_Some:
  assumes "\<forall>k \<in> set ks. \<exists>x. m k = Some x"
  shows "concat (map (\<lambda>k. case m k of None \<Rightarrow> [] | Some x \<Rightarrow> [h k x]) ks) =
         map (\<lambda>k. h k (the (m k))) ks"
  using assms by (induction ks) auto

lemma rangeOrder_distributionParams:
  assumes "rangeOrder order (distributionParams toFloat cnt mn mx mean ss)"
  shows "mset order = mset [''count'', ''min'', ''max'', ''mean'', ''ss'']"
proof -
  have "distinct order" and "set order = set [''count'', ''min'', ''max'', ''mean'', ''ss'']"
    using assms by (auto simp: rangeOrder_def distributionParams_def)
  moreover have "distinct [''count'', ''min'', ''max'', ''mean'', ''ss'']" by simp
  ultimately show ?thesis
    using set_eq_iff_mset_eq_distinct by blast
qed

lemma translate_distribution:
  assumes "spec_nameParts (ModelDimensionTags opts) (Tags viewRow) \<noteq> []"
      and "Data viewRow = DistributionData cnt mn mx mean ss"
  shows "\<exists>mdf. emittedMetrics (onViewRow_translate toFloat order opts viewData viewRow) =
     concat (map (\<lambda>k. case distributionParams toFloat cnt mn mx mean ss k of
                         None \<Rightarrow> []
                       | Some x \<Rightarrow>
                          [\<lparr>Metric = Name (View viewData) @ ''/'' @ k,
                            Dimensions = rowDimensions (ModelDimensionTags opts) (Tags viewRow) ++
                                         GlobalDimensions opts,
                            MetadataFields = mdf,
                            Timestamp = EndUnixNano viewData sdiv 1000000,
                            Value = x\<rparr>]) order)"
proof -
  obtain dims np where p: "pullDimensions (ModelDimensionTags opts) (Tags viewRow) (Map.empty, []) = (dims, np)"
    by (cases "pullDimensions (ModelDimensionTags opts) (Tags viewRow) (Map.empty, [])")
  from pullDimensions_nameParts[of "ModelDimensionTags opts" "Tags viewRow" Map.empty "[]"] p
  have np: "np = spec_nameParts (ModelDimensionTags opts) (Tags viewRow)" by simp
  have rd: "rowDimensions (ModelDimensionTags opts) (Tags viewRow) = dims"
    by (simp add: rowDimensions_def p)
  define md where "md = addKubernetesImpacts (tagsToMetadata (Tags viewRow) dims
       [SourceTypeField \<mapsto> DefaultSourceType]) ++ GlobalMetadataFields opts"
  from addMetric_appends[of viewData md "dims ++ GlobalDimensions opts" "EndUnixNano viewData sdiv 1000000"]
  obtain mdf where a: "\<And>d n x. addMetric viewData md (dims ++ GlobalDimensions opts)
        (EndUnixNano viewData sdiv 1000000) d n x =
      d\<lparr>Metrics := Metrics d @
          [\<lparr>Metric = n, Dimensions = dims ++ GlobalDimensions opts, MetadataFields = mdf,
            Timestamp = EndUnixNano viewData sdiv 1000000, Value = x\<rparr>]\<rparr>"
    by blast
  let ?dm = "dims ++ GlobalDimensions opts"
  let ?ts = "EndUnixNano viewData sdiv 1000000"
  let ?mk = "\<lambda>n x. \<lparr>Metric = n, Dimensions = ?dm, MetadataFields = mdf, Timestamp = ?ts, Value = x\<rparr>"
  let ?f = "\<lambda>suffix. Name (View viewData) @ ''/'' @ suffix"
  define d0 :: "'a Data" where "d0 = AddModel \<lparr>Models = [], Metrics = []\<rparr>
       \<lparr>Model.Timestamp = ?ts, Model.Dimensions = ?dm,
        Model.MetadataFields = metadataFieldsFromMap
           ((copyMap md)(NameField \<mapsto> Join np ''/''))\<rparr>"
  have m0: "Metrics d0 = []" by (simp add: d0_def AddModel_def)
  have t: "onViewRow_translate toFloat order opts viewData viewRow =
     ([], Some (rangeMap order (distributionParams toFloat cnt mn mx mean ss)
          (\<lambda>suffix val d'. addMetric viewData md ?dm ?ts d' (?f suffix) val) d0))"
    using assms p np by (simp add: onViewRow_translate_def Let_def md_def d0_def)
  have r: "rangeMap order (distributionParams toFloat cnt mn mx mean ss)
          (\<lambda>suffix val d'. addMetric viewData md ?dm ?ts d' (?f suffix) val) d0 =
        d0\<lparr>Metrics := Metrics d0 @
          concat (map (\<lambda>k. case distributionParams toFloat cnt mn mx mean ss k of
                              None \<Rightarrow> [] | Some x \<Rightarrow> [?mk (?f k) x]) order)\<rparr>"
    by (rule rangeMap_appends[where add = "addMetric viewData md ?dm ?ts" and mk = ?mk and f = ?f])
       (rule a)
  show ?thesis
    unfolding t r rd by (rule exI[of _ mdf]) (simp add: emittedMetrics_def m0)
qed

text \<open>
  Claim C3. For every row with a distribution payload and a tag that is a configured
  dimension tag, whatever order the loop over the five parameters takes, exactly five
  metric records are handed on: named after the snapshot with the suffixes \<^verbatim>\<open>/count\<close>,
  \<^verbatim>\<open>/min\<close>, \<^verbatim>\<open>/max\<close>, \<^verbatim>\<open>/mean\<close> and \<^verbatim>\<open>/ss\<close>, with the count (converted to float64), the
  minimum, the maximum, the mean and the sum of squared deviations as values, and all
  with the same timestamp, dimensions and metadata. Nothing is asked of the
  distribution, so a count of 0 gives the five records too; the records are compared
  as a multiset, their order left open.
\<close>

theorem distribution_gives_five_metrics:
  assumes "\<exists>t \<in> set (Tags viewRow). KeyName t \<in> set (ModelDimensionTags opts)"
      and "Data viewRow = DistributionData cnt mn mx mean ss"
      and "rangeOrder order (distributionParams toFloat cnt mn mx mean ss)"
  shows "\<exists>md. length (emittedMetrics (onViewRow_translate toFloat order opts viewData viewRow)) = 5 \<and>
           mset (emittedMetrics (onViewRow_translate toFloat order opts viewData viewRow)) =
           mset (distributionMetrics (Name (View viewData))
                   (rowDimensions (ModelDimensionTags opts) (Tags viewRow) ++ GlobalDimensions opts)
                   md (EndUnixNano viewData sdiv 1000000) (toFloat cnt) mn mx mean ss)"
proof -
  from assms(1) have ne: "spec_nameParts (ModelDimensionTags opts) (Tags viewRow) \<noteq> []"
    by (auto simp: spec_nameParts_Nil_iff)
  let ?dm = "rowDimensions (ModelDimensionTags opts) (Tags viewRow) ++ GlobalDimensions opts"
  let ?ts = "EndUnixNano viewData sdiv 1000000"
  let ?params = "distributionParams toFloat cnt mn mx mean ss"
  from translate_distribution[OF ne assms(2), of toFloat order viewData] obtain mdf where
    e: "emittedMetrics (onViewRow_translate toFloat order opts viewData viewRow) =
     concat (map (\<lambda>k. case ?params k of
                         None \<Rightarrow> []
                       | Some x \<Rightarrow>
                          [\<lparr>Metric = Name (View viewData) @ ''/'' @ k, Dimensions = ?dm,
                            MetadataFields = mdf, Timestamp = ?ts, Value = x\<rparr>]) order)"
    by blast
  define g where "g = (\<lambda>k. \<lparr>Metric = Name (View viewData) @ ''/'' @ k, Dimensions = ?dm,
                            MetadataFields = mdf, Timestamp = ?ts, Value = the (?params k)\<rparr>)"
  have "set order = dom ?params" using assms(3) by (simp add: rangeOrder_def)
  then have "\<forall>k \<in> set order. \<exists>x. ?params k = Some x" by auto
  then have "concat (map (\<lambda>k. case ?params k of
                         None \<Rightarrow> []
                       | Some x \<Rightarrow>
                          [\<lparr>Metric = Name (View viewData) @ ''/'' @ k, Dimensions = ?dm,
                            MetadataFields = mdf, Timestamp = ?ts, Value = x\<rparr>]) order) = map g order"
    unfolding g_def by (rule concat_map_Some)
  with e have m: "emittedMetrics (onViewRow_translate toFloat order opts viewData viewRow) = map g order"
    by simp
  have "mset (map g order) = image_mset g (mset order)" by simp
  also have "\<dots> = image_mset g (mset [''count'', ''min'', ''max'', ''mean'', ''ss''])"
    by (simp only: rangeOrder_distributionParams[OF assms(3)])
  also have "\<dots> = mset (distributionMetrics (Name (View viewData)) ?dm mdf ?ts (toFloat cnt) mn mx mean ss)"
    by (simp add: g_def distributionMetrics_def distributionParams_def)
  finally have ms: "mset (map g order) =
     mset (distributionMetrics (Name (View viewData)) ?dm mdf ?ts (toFloat cnt) mn mx mean ss)" .
  have "length (map g order) = size (mset (map g order))" by simp
  also have "\<dots> = 5" unfolding ms by (simp add: distributionMetrics_def)
  finally have "length (map g order) = 5" .
  with ms m have "length (emittedMetrics (onViewRow_translate toFloat order opts viewData viewRow)) = 5 \<and>
           mset (emittedMetrics (onViewRow_translate toFloat order opts viewData viewRow)) =
           mset (distributionMetrics (Name (View viewData)) ?dm mdf ?ts (toFloat cnt) mn mx mean ss)"
    by simp
  then show ?thesis by blast
qed


lemma demo_rangeOrder:
  "rangeOrder demoOrder (distributionParams (\<lambda>n. n) 10 1 9 5 (20::int))"
  by (auto simp: rangeOrder_def demoOrder_def distributionParams_def)

text \<open>
  The theorem at the distribution with count 10, minimum 1, maximum 9, mean 5 and sum
  of squared deviations 20, with the loop running in the order mean, count, ss, min,
  max: five records, in that order, with one timestamp (the end time in milliseconds).
\<close>

theorem distribution_gives_five_metrics_witness:
  "(\<exists>t \<in> set (Tags demoRow). KeyName t \<in> set (ModelDimensionTags demoOptions)) \<and>
   Data demoRow = DistributionData 10 1 9 5 20 \<and>
   rangeOrder demoOrder (distributionParams (\<lambda>n. n) 10 1 9 5 (20::int)) \<and>
   length (emittedMetrics (onViewRow_translate (\<lambda>n. n) demoOrder demoOptions demoViewData demoRow)) = 5 \<and>
   map (\<lambda>metric. (Metric metric, Value metric, Metric.Timestamp metric))
     (emittedMetrics (onViewRow_translate (\<lambda>n. n) demoOrder demoOptions demoViewData demoRow)) =
     [(''banana/mean'', 5, 1500000000123), (''banana/count'', 10, 1500000000123),
      (''banana/ss'', 20, 1500000000123), (''banana/min'', 1, 1500000000123),
      (''banana/max'', 9, 1500000000123)]"
proof -
  have h: "\<exists>t \<in> set (Tags demoRow). KeyName t \<in> set (ModelDimensionTags demoOptions)"
    by (simp add: demoRow_def demoOptions_def)
  have dd: "Data demoRow = DistributionData 10 1 9 5 20" by (simp add: demoRow_def)
  from distribution_gives_five_metrics[OF h dd demo_rangeOrder, of demoViewData]
  have len: "length (emittedMetrics (onViewRow_translate (\<lambda>n. n) demoOrder demoOptions demoViewData demoRow)) = 5"
    by blast
  have ne: "spec_nameParts (ModelDimensionTags demoOptions) (Tags demoRow) \<noteq> []"
    by (simp add: demo_nameParts)
  from translate_distribution[OF ne dd, of "\<lambda>n. n" demoOrder demoViewData] obtain mdf where
    "emittedMetrics (onViewRow_translate (\<lambda>n. n) demoOrder demoOptions demoViewData demoRow) =
     concat (map (\<lambda>k. case distributionParams (\<lambda>n. n) 10 1 9 5 20 k of
                         None \<Rightarrow> []
                       | Some x \<Rightarrow>
                          [\<lparr>Metric = Name (View demoViewData) @ ''/'' @ k,
                            Dimensions = rowDimensions (ModelDimensionTags demoOptions) (Tags demoRow) ++
                                         GlobalDimensions demoOptions,
                            MetadataFields = mdf,
                            Timestamp = EndUnixNano demoViewData sdiv 1000000,
                            Value = x\<rparr>]) demoOrder)"
    by blast
  then have vals: "map (\<lambda>metric. (Metric metric, Value metric, Metric.Timestamp metric))
     (emittedMetrics (onViewRow_translate (\<lambda>n. n) demoOrder demoOptions demoViewData demoRow)) =
     [(''banana/mean'', 5, 1500000000123), (''banana/count'', 10, 1500000000123),
      (''banana/ss'', 20, 1500000000123), (''banana/min'', 1, 1500000000123),
      (''banana/max'', 9, 1500000000123)]"
    by (simp add: demoOrder_def distributionParams_def demoViewData_def demoView_def signed_divide_int_def)
  from h dd demo_rangeOrder len vals show ?thesis by blast
qed

subsection \<open>Metadata as a protobuf structure\<close>

text \<open>
  Claim C10. \<^verbatim>\<open>metadataFieldsFromMap\<close> keeps exactly the keys of the map; the fields
  \<^verbatim>\<open>impactFromDimensions\<close> and \<^verbatim>\<open>impactToDimensions\<close> become a list value with the map's
  value as its one string element, every other field a plain string value.
\<close>

theorem metadata_fields_from_map:
  "dom (metadataFieldsFromMap m) = dom m \<and>
   (\<forall>k x. m k = Some x \<longrightarrow>
      metadataFieldsFromMap m k =
        Some (if k = ''impactFromDimensions'' \<or> k = ''impactToDimensions''
              then ListValue [StringValue x] else StringValue x))"
  by (auto simp: metadataFieldsFromMap_def valueFromString_def valueFromStringSlice_def
        ImpactFromDimensionsField_def ImpactToDimensionsField_def split: option.splits if_splits)

text \<open>
  The theorem at a map with the fields \<^verbatim>\<open>impactFromDimensions\<close> and \<^verbatim>\<open>host\<close>.
\<close>

theorem metadata_fields_from_map_witness:
  "demoMetadata ''impactFromDimensions'' = Some ''k8s.pod=p'' \<and>
   demoMetadata ''host'' = Some ''h1'' \<and>
   metadataFieldsFromMap demoMetadata ''impactFromDimensions'' =
     Some (ListValue [StringValue ''k8s.pod=p'']) \<and>
   metadataFieldsFromMap demoMetadata ''host'' = Some (StringValue ''h1'') \<and>
   dom (metadataFieldsFromMap demoMetadata) = {''impactFromDimensions'', ''host''}"
proof -
  have a: "demoMetadata ''impactFromDimensions'' = Some ''k8s.pod=p''"
    and b: "demoMetadata ''host'' = Some ''h1''"
    by (simp_all add: demoMetadata_def)
  have d: "dom demoMetadata = {''impactFromDimensions'', ''host''}"
    by (auto simp: demoMetadata_def)
  from metadata_fields_from_map[of demoMetadata] a b d show ?thesis by simp
qed

subsection \<open>The freshness checker\<close>

lemma isFresh_unfold:
  assumes "keyHashOf hash model = Inr k" "valueHashOf hash model = Inr h"
  shows "isFresh hash now f model =
     (if (case cache_m f k of None \<Rightarrow> False | Some old \<Rightarrow> h = v_hash old) then (True, f)
      else (False, f\<lparr>cache_m := (cache_m f)(k \<mapsto> \<lparr>v_hash = h, t_unix = now\<rparr>)\<rparr>))"
  using assms by (simp add: isFresh_def keyHashOf_def valueHashOf_def)

lemma isFresh_hash_error:
  assumes "keyHashOf hash model = Inl err \<or> valueHashOf hash model = Inl err"
  shows "isFresh hash now f model = (False, f)"
  using assms by (auto simp: isFresh_def keyHashOf_def valueHashOf_def split: sum.splits)

lemma isFresh_iff:
  "fst (isFresh hash now f model) \<longleftrightarrow>
     (\<exists>k old. keyHashOf hash model = Inr k \<and> cache_m f k = Some old \<and>
              valueHashOf hash model = Inr (v_hash old))"
  by (auto simp: isFresh_def keyHashOf_def valueHashOf_def split: sum.splits option.splits)

lemma isFresh_unchanged:
  "fst (isFresh hash now f model) \<Longrightarrow> snd (isFresh hash now f model) = f"
  by (auto simp: isFresh_def split: sum.splits option.splits if_splits)

lemma isFresh_entry_after:
  assumes "keyHashOf hash model = Inr k" "valueHashOf hash model = Inr h"
  shows "\<exists>old. cache_m (snd (isFresh hash now f model)) k = Some old \<and> v_hash old = h \<and>
           (\<not> fst (isFresh hash now f model) \<longrightarrow> t_unix old = now)"
  by (auto simp: isFresh_unfold[OF assms] split: option.splits)

lemma ttl_evictTicks: "ttl_seconds (evictTicks ticks f) = ttl_seconds f"
  by (induction ticks arbitrary: f) (simp_all add: evictTick_def)

lemma cache_evictTicks:
  "cache_m (evictTicks ticks f) k =
     (case cache_m f k of
        None \<Rightarrow> None
      | Some old \<Rightarrow>
          if list_all (\<lambda>tick. tick - t_unix old \<le> ttl_seconds f) ticks then Some old else None)"
proof (induction ticks arbitrary: f)
  case Nil
  then show ?case by (simp split: option.splits)
next
  case (Cons tick ticks)
  have t: "ttl_seconds (evictTick tick f) = ttl_seconds f" by (simp add: evictTick_def)
  show ?case
    by (simp add: Cons.IH t) (auto simp: evictTick_def split: option.splits)
qed

lemma ttl_isFresh: "ttl_seconds (snd (isFresh hash now f model)) = ttl_seconds f"
  by (auto simp: isFresh_def split: sum.splits option.splits)

text \<open>
  Claim C4. \<^verbatim>\<open>isFresh\<close> returns true exactly when the cache holds an entry under the
  hash of the model's dimensions whose value is the hash of the model's metadata
  fields, and then leaves the cache as it is. In the other cases the claim names (no
  entry, or an entry with another metadata hash) it stores the metadata hash with the
  current time under the dimension hash and returns false. So a second submission of
  the same dimensions and metadata is suppressed as long as no eviction tick found the
  entry older than the TTL; a submission whose metadata hash differs is not suppressed;
  and once a tick has found the entry older than the TTL, the unchanged submission is
  not suppressed either.
\<close>

theorem isFresh_contract:
  "(fst (isFresh hash now f model) \<longleftrightarrow>
      (\<exists>k old. keyHashOf hash model = Inr k \<and> cache_m f k = Some old \<and>
               valueHashOf hash model = Inr (v_hash old))) \<and>
   (fst (isFresh hash now f model) \<longrightarrow> snd (isFresh hash now f model) = f) \<and>
   (\<forall>k h. keyHashOf hash model = Inr k \<and> valueHashOf hash model = Inr h \<and>
          \<not> fst (isFresh hash now f model) \<longrightarrow>
          snd (isFresh hash now f model) =
            f\<lparr>cache_m := (cache_m f)(k \<mapsto> \<lparr>v_hash = h, t_unix = now\<rparr>)\<rparr>) \<and>
   (\<forall>k h old ticks now' model'.
      keyHashOf hash model = Inr k \<and> valueHashOf hash model = Inr h \<and>
      cache_m (snd (isFresh hash now f model)) k = Some old \<and>
      keyHashOf hash model' = Inr k \<longrightarrow>
      (valueHashOf hash model' = Inr h \<and>
       list_all (\<lambda>tick. tick - t_unix old \<le> ttl_seconds f) ticks \<longrightarrow>
         fst (isFresh hash now' (evictTicks ticks (snd (isFresh hash now f model))) model')) \<and>
      (valueHashOf hash model' \<noteq> Inr h \<longrightarrow>
         \<not> fst (isFresh hash now' (evictTicks ticks (snd (isFresh hash now f model))) model')) \<and>
      (\<not> list_all (\<lambda>tick. tick - t_unix old \<le> ttl_seconds f) ticks \<longrightarrow>
         \<not> fst (isFresh hash now' (evictTicks ticks (snd (isFresh hash now f model))) model')))"
proof (intro conjI allI impI)
  show "fst (isFresh hash now f model) \<longleftrightarrow>
      (\<exists>k old. keyHashOf hash model = Inr k \<and> cache_m f k = Some old \<and>
               valueHashOf hash model = Inr (v_hash old))"
    by (rule isFresh_iff)
next
  assume "fst (isFresh hash now f model)"
  then show "snd (isFresh hash now f model) = f" by (rule isFresh_unchanged)
next
  fix k h
  assume "keyHashOf hash model = Inr k \<and> valueHashOf hash model = Inr h \<and>
          \<not> fst (isFresh hash now f model)"
  then show "snd (isFresh hash now f model) =
            f\<lparr>cache_m := (cache_m f)(k \<mapsto> \<lparr>v_hash = h, t_unix = now\<rparr>)\<rparr>"
    by (auto simp: isFresh_unfold split: if_splits)
next
  fix k h old ticks now' model'
  assume a: "keyHashOf hash model = Inr k \<and> valueHashOf hash model = Inr h \<and>
      cache_m (snd (isFresh hash now f model)) k = Some old \<and>
      keyHashOf hash model' = Inr k"
  from a isFresh_entry_after[of hash model k h now f] have v: "v_hash old = h" by auto
  let ?f1 = "snd (isFresh hash now f model)"
  have c: "cache_m (evictTicks ticks ?f1) k =
     (if list_all (\<lambda>tick. tick - t_unix old \<le> ttl_seconds f) ticks then Some old else None)"
    using a by (simp add: cache_evictTicks ttl_isFresh)
  {
    assume "valueHashOf hash model' = Inr h \<and>
       list_all (\<lambda>tick. tick - t_unix old \<le> ttl_seconds f) ticks"
    then show "fst (isFresh hash now' (evictTicks ticks ?f1) model')"
      using a c v by (auto simp: isFresh_iff)
  }
  {
    assume "valueHashOf hash model' \<noteq> Inr h"
    then show "\<not> fst (isFresh hash now' (evictTicks ticks ?f1) model')"
      using a c v by (auto simp: isFresh_iff split: if_splits)
  }
  {
    assume "\<not> list_all (\<lambda>tick. tick - t_unix old \<le> ttl_seconds f) ticks"
    then show "\<not> fst (isFresh hash now' (evictTicks ticks ?f1) model')"
      using a c by (auto simp: isFresh_iff)
  }
qed


lemma demo_hashes:
  "keyHashOf demoHash demoModel = Inr 3"
  "valueHashOf demoHash demoModel = Inr 3"
  "keyHashOf demoHash demoModelChanged = Inr 3"
  "valueHashOf demoHash demoModelChanged = Inr 4"
  by (simp_all add: keyHashOf_def valueHashOf_def demoHash_def demoModel_def demoModelChanged_def)

text \<open>
  A first submission at time 100 into an empty cache with a TTL of 3600 seconds is not
  fresh and is stored; the same record is fresh after the ticks at 150 and 3700; a
  record with other metadata is not; and after the tick at 3701 the same record is not
  fresh any more.
\<close>

theorem isFresh_contract_witness:
  "\<not> fst (isFresh demoHash 100 (newFreshnessChecker 3600) demoModel) \<and>
   cache_m (snd (isFresh demoHash 100 (newFreshnessChecker 3600) demoModel)) 3 =
     Some \<lparr>v_hash = 3, t_unix = 100\<rparr> \<and>
   fst (isFresh demoHash 200
          (evictTicks [150, 3700] (snd (isFresh demoHash 100 (newFreshnessChecker 3600) demoModel)))
          demoModel) \<and>
   \<not> fst (isFresh demoHash 200
          (evictTicks [150] (snd (isFresh demoHash 100 (newFreshnessChecker 3600) demoModel)))
          demoModelChanged) \<and>
   \<not> fst (isFresh demoHash 5000
          (evictTicks [3701] (snd (isFresh demoHash 100 (newFreshnessChecker 3600) demoModel)))
          demoModel)"
proof -
  let ?f0 = "newFreshnessChecker 3600"
  let ?r = "isFresh demoHash 100 ?f0 demoModel"
  note c = isFresh_contract[of demoHash 100 ?f0 demoModel]
  have nf: "\<not> fst ?r"
    using c by (simp add: newFreshnessChecker_def)
  have upd: "snd ?r = ?f0\<lparr>cache_m := (cache_m ?f0)(3 \<mapsto> \<lparr>v_hash = 3, t_unix = 100\<rparr>)\<rparr>"
    using c nf demo_hashes by blast
  have e: "cache_m (snd ?r) 3 = Some \<lparr>v_hash = 3, t_unix = 100\<rparr>"
    by (simp add: upd)
  have ttl: "ttl_seconds ?f0 = 3600" by (simp add: newFreshnessChecker_def)
  have pre: "keyHashOf demoHash demoModel = Inr 3 \<and> valueHashOf demoHash demoModel = Inr 3 \<and>
      cache_m (snd ?r) 3 = Some \<lparr>v_hash = 3, t_unix = 100\<rparr> \<and> keyHashOf demoHash demoModel = Inr 3"
    using demo_hashes e by simp
  have pre': "keyHashOf demoHash demoModel = Inr 3 \<and> valueHashOf demoHash demoModel = Inr 3 \<and>
      cache_m (snd ?r) 3 = Some \<lparr>v_hash = 3, t_unix = 100\<rparr> \<and> keyHashOf demoHash demoModelChanged = Inr 3"
    using demo_hashes e by simp
  from c have rest: "\<And>k h old ticks now' model'.
      keyHashOf demoHash demoModel = Inr k \<and> valueHashOf demoHash demoModel = Inr h \<and>
      cache_m (snd ?r) k = Some old \<and>
      keyHashOf demoHash model' = Inr k \<Longrightarrow>
      (valueHashOf demoHash model' = Inr h \<and>
       list_all (\<lambda>tick. tick - t_unix old \<le> ttl_seconds ?f0) ticks \<longrightarrow>
         fst (isFresh demoHash now' (evictTicks ticks (snd ?r)) model')) \<and>
      (valueHashOf demoHash model' \<noteq> Inr h \<longrightarrow>
         \<not> fst (isFresh demoHash now' (evictTicks ticks (snd ?r)) model')) \<and>
      (\<not> list_all (\<lambda>tick. tick - t_unix old \<le> ttl_seconds ?f0) ticks \<longrightarrow>
         \<not> fst (isFresh demoHash now' (evictTicks ticks (snd ?r)) model'))"
    by blast
  have a: "fst (isFresh demoHash 200 (evictTicks [150, 3700] (snd ?r)) demoModel)"
    using rest[OF pre, of "[150, 3700]" 200] demo_hashes by (simp add: ttl)
  have b: "\<not> fst (isFresh demoHash 200 (evictTicks [150] (snd ?r)) demoModelChanged)"
    using rest[OF pre', of "[150]" 200] demo_hashes by simp
  have d: "\<not> fst (isFresh demoHash 5000 (evictTicks [3701] (snd ?r)) demoModel)"
    using rest[OF pre, of "[3701]" 5000] by (simp add: ttl)
  from nf e a b d show ?thesis by blast
qed

subsection \<open>Adding a batch to the bundlers\<close>








subsection \<open>Sending a batch\<close>



subsection \<open>Constructing an exporter\<close>







lemma demo_compile:
  "demoCompile ''a*'' = Inr (StarOf CHR ''a'')"
  "demoCompile ''('' = Inl (Err ''error parsing regexp'')"
  by (simp_all add: demoCompile_def isMeta_def)

lemma demo_NewExporter: "NewExporter demoLib demoOptions = Inr demoExporter"
  by (simp add: NewExporter_def demoLib_def demoOptions_def demoExporter_def demo_compile Let_def)




subsection \<open>Ignored snapshots\<close>

lemma ignoredBy_iff:
  "ignoredBy findString rs name \<longleftrightarrow> (\<exists>r \<in> set rs. findString r name \<noteq> [])"
  by (induction rs) auto

lemma ExportView_ignored:
  assumes "\<exists>r \<in> set (ignoredMetrics e). FindString lib r (Name (View viewData)) \<noteq> []"
  shows "ExportView lib orders now e viewData =
     Inr (log (options e) LogLevelDebug
            [(''viewName'', FString (Name (View viewData)))] ''exporting view'' @
          log (options e) LogLevelDebug
            [(''viewName'', FString (Name (View viewData)))] ''ignoring metric'', e)"
  using assms by (simp add: ExportView_def Let_def ignoredBy_iff)

lemma demo_ExportView:
  "bufferedRecords (ExportView demoLib (\<lambda>i. demoOrder) 100 demoExporter demoViewData) = Inr (1, 2)"
  by (simp add: ExportView_def onViewData_def onViewRow_def onViewRow_translate_def bundleData_def
      andThen_def bufferedRecords_def Let_def demoLib_def demoExporter_def demoOptions_def
      demoViewData_def demoView_def demoRow_def demoOrder_def demoFindString_def demoAdd_def
      demoHash_def isFresh_def newFreshnessChecker_def distributionParams_def addMetric_def
      AddMetric_def AddModel_def copyMap_def metadataFieldsFromMap_def addKubernetesImpacts_def
      valueFromString_def valueFromStringSlice_def log_def
      SourceTypeField_def NameField_def DescriptionField_def UnitsField_def
      K8sClusterField_def ImpactFromDimensionsField_def ImpactToDimensionsField_def)


text \<open>
  Claim C5, at the ignore pattern \<^verbatim>\<open>a*\<close> and the snapshot named \<^verbatim>\<open>banana\<close>. The pattern
  compiles and matches every name; its leftmost match in \<^verbatim>\<open>banana\<close> is the empty string
  at offset 0, so \<^verbatim>\<open>FindString\<close> gives the empty string, \<^verbatim>\<open>ExportView\<close> does not take the
  snapshot for ignored, and the row is exported: one model and two metrics are left in
  the bundlers of the examples (which buffer two records each).
\<close>

theorem ExportView_exports_name_with_empty_match:
  "regexp_Compile demoLib ''a*'' = Inr (StarOf CHR ''a'') \<and>
   NewExporter demoLib demoOptions = Inr demoExporter \<and>
   ignoredMetrics demoExporter = [StarOf CHR ''a''] \<and>
   FindString demoLib (StarOf CHR ''a'') (Name (View demoViewData)) = [] \<and>
   bufferedRecords (ExportView demoLib (\<lambda>i. demoOrder) 100 demoExporter demoViewData) = Inr (1, 2)"
proof -
  have "regexp_Compile demoLib ''a*'' = Inr (StarOf CHR ''a'')"
    by (simp add: demoLib_def demo_compile)
  moreover have "ignoredMetrics demoExporter = [StarOf CHR ''a'']"
    by (simp add: demoExporter_def)
  moreover have "FindString demoLib (StarOf CHR ''a'') (Name (View demoViewData)) = []"
    by (simp add: demoLib_def demoFindString_def demoViewData_def demoView_def)
  ultimately show ?thesis
    using demo_NewExporter demo_ExportView by blast
qed

end
